theory Spec2Isabelle
  imports Main "HOL-Library.AList"
begin

section \<open>Python values, errors and the client's answers\<close>

text \<open>
  The adapter of \<^verbatim>\<open>clickhouse_driver/connect.py\<close> is dynamically typed. The values it
  only passes on (query parameters, table structures, table data, setting values, the
  fields of a row) are kept as a small universe of Python values.
\<close>

datatype pyval =
    PNone
  | PBool bool
  | PInt int
  | PStr string
  | PTuple "pyval list"
  | PList "pyval list"
  | PDict "(pyval \<times> pyval) list"

text \<open>
  \<^verbatim>\<open>DriverError\<close> is the one native error type of the underlying client (line 4).
\<close>

datatype driver_error = DriverError string

text \<open>
  Every way a method of the module can raise. \<open>Error\<close> and \<open>OperationalError\<close> are the
  adapter's own classes (lines 13 and 33); \<open>Uncaught e\<close> is the client's native error
  \<open>e\<close> leaving a method as it is; the others are the interpreter's built-in errors.
\<close>

datatype error =
    Error string
  | OperationalError driver_error
  | Uncaught driver_error
  | ValueError
  | TypeError
  | AttributeError
  | StopIteration

type_synonym row = "pyval list"

type_synonym columns_with_types = "(string \<times> string) list"

text \<open>
  A lazy sequence is the list of what its successive pulls will do: produce an element or
  raise the client's error (a pull does network input). It behaves as a Python generator:
  once a pull has raised, the sequence is finished.
\<close>

datatype 'a pull = Yields 'a | Raises driver_error

text \<open>
  What \<^verbatim>\<open>Client.execute_iter\<close> returns: a lazy sequence whose first element is the
  \<^verbatim>\<open>columns_with_types\<close> header and whose other elements are rows.
\<close>

datatype lazy_response =
    EmptySequence
  | HeaderThenRows "columns_with_types pull" "row pull list"

text \<open>
  What \<^verbatim>\<open>Client.execute\<close> returns: \<^verbatim>\<open>None\<close>, the pair
  \<^verbatim>\<open>(rows, columns_with_types)\<close>, or a number of rows written.
\<close>

datatype buffered_response =
    NoResponse
  | Result "row list" columns_with_types
  | Count int

datatype response = Buffered buffered_response | Lazy lazy_response

text \<open>
  The client is an external collaborator: what it answers when one of its two entry points
  is called is an input of the model.
\<close>

record client_replies =
  execute_reply :: "driver_error + buffered_response"
  execute_iter_reply :: "driver_error + lazy_response"

section \<open>Tuple unpacking and dictionaries\<close>

text \<open>What iterating over a value produces; \<open>None\<close> when the value is not iterable.\<close>

fun iter_values :: "pyval \<Rightarrow> pyval list option" where
  "iter_values (PStr s) = Some (map (\<lambda>ch. PStr [ch]) s)"
| "iter_values (PTuple xs) = Some xs"
| "iter_values (PList xs) = Some xs"
| "iter_values (PDict kvs) = Some (map fst kvs)"
| "iter_values PNone = None"
| "iter_values (PBool b) = None"
| "iter_values (PInt i) = None"

text \<open>
  The assignment \<^verbatim>\<open>a, b = v\<close>: \<^verbatim>\<open>TypeError\<close> when \<open>v\<close> is not iterable,
  \<^verbatim>\<open>ValueError\<close> when it does not produce exactly two values.
\<close>

definition unpack2 :: "pyval \<Rightarrow> error + pyval \<times> pyval" where
  "unpack2 v =
     (case iter_values v of
        None \<Rightarrow> Inl TypeError
      | Some [] \<Rightarrow> Inl ValueError
      | Some [a] \<Rightarrow> Inl ValueError
      | Some [a, b] \<Rightarrow> Inr (a, b)
      | Some (a # b # c # rest) \<Rightarrow> Inl ValueError)"

text \<open>
  A dictionary is an association list with distinct keys, in insertion order.
  \<^verbatim>\<open>d[k] = v\<close> is \<^const>\<open>AList.update\<close>: it replaces the value of a key that is there,
  in its place, and appends a key that is not.

  The settings dictionary is an object the caller hands to \<^verbatim>\<open>set_settings\<close> and may keep:
  dictionaries live in a heap, and a reference is an index into it. A new dictionary is
  allocated at the end of the heap.
\<close>

type_synonym 'v dict = "(string \<times> 'v) list"

type_synonym addr = nat

type_synonym heap = "pyval dict list"

section \<open>The cursor\<close>

datatype states = NONE | RUNNING | FINISHED | CURSOR_CLOSED

text \<open>One \<^verbatim>\<open>{'name': .., 'structure': .., 'data': ..}\<close> record of \<^verbatim>\<open>_prepare\<close>.\<close>

record external_table =
  table_name :: pyval
  table_structure :: pyval
  table_data :: pyval

text \<open>The \<^verbatim>\<open>execute_kwargs\<close> dictionary built by \<^verbatim>\<open>_prepare\<close> (lines 250-254).\<close>

record execute_kwargs =
  kw_settings :: "addr option"
  kw_external_tables :: "external_table list option"
  kw_types_check :: bool

datatype entry_point = ClientExecute | ClientExecuteIter

text \<open>
  One call of an entry point of the client, with the arguments the adapter gave it.
  \<open>call_with_column_types\<close> is \<open>None\<close> when the keyword is not passed.
\<close>

record client_call =
  call_entry :: entry_point
  call_operation :: string
  call_params :: pyval
  call_with_column_types :: "bool option"
  call_kwargs :: execute_kwargs

text \<open>
  The client handle of a cursor is the trace of what the cursor has asked of it, oldest
  first.
\<close>

datatype client_event = Called client_call | Disconnected

text \<open>
  The value of \<^verbatim>\<open>self._rows\<close>: \<^verbatim>\<open>None\<close>, a list of rows, or the rest of a lazy
  sequence.
\<close>

datatype rows_value = RowsNone | RowsList "row list" | RowsIter "row pull list"

text \<open>
  The attributes of a \<^verbatim>\<open>Cursor\<close> object; \<open>self_x\<close> is \<^verbatim>\<open>self._x\<close>.
  \<open>self_rowcount\<close> holds whatever \<^verbatim>\<open>_process_response\<close> stored there (line 260); the
  initial \<^verbatim>\<open>-1\<close> is \<open>Buffered (Count (- 1))\<close>. The keys of \<open>self_external_tables\<close> are
  Python values; each is bound to a pair \<open>(structure, data)\<close>.
\<close>

record cursor =
  self_client :: "client_event list"
  self_state :: states
  self_columns :: "string list option"
  self_types :: "string list option"
  self_rows :: rows_value
  self_rowcount :: response
  self_stream_results :: bool
  self_max_row_buffer :: int
  self_settings :: "addr option"
  self_external_tables :: "(pyval \<times> pyval \<times> pyval) list"
  self_types_check :: bool
  arraysize :: int

text \<open>\<^verbatim>\<open>_reset_state\<close>, lines 281-296.\<close>

definition reset_state :: "cursor \<Rightarrow> cursor" where
  "reset_state c =
     c\<lparr>self_state := NONE,
       self_columns := None,
       self_types := None,
       self_rows := RowsNone,
       self_rowcount := Buffered (Count (- 1)),
       self_stream_results := False,
       self_max_row_buffer := 0,
       self_settings := None,
       self_external_tables := [],
       self_types_check := False\<rparr>"

text \<open>
  \<^verbatim>\<open>Cursor.__init__\<close>, lines 105-111: binds the client, resets the state and sets
  \<^verbatim>\<open>arraysize\<close> to \<^verbatim>\<open>-1\<close>.
\<close>

definition Cursor_init :: "client_event list \<Rightarrow> cursor" where
  "Cursor_init client =
     (reset_state
        \<lparr>self_client = client, self_state = NONE, self_columns = None, self_types = None,
         self_rows = RowsNone, self_rowcount = Buffered (Count (- 1)),
         self_stream_results = False, self_max_row_buffer = 0, self_settings = None,
         self_external_tables = [], self_types_check = False, arraysize = 0\<rparr>)
     \<lparr>arraysize := - 1\<rparr>"

text \<open>The \<^verbatim>\<open>rowcount\<close> property, lines 123-125: the literal \<^verbatim>\<open>-1\<close>.\<close>

definition rowcount :: "cursor \<Rightarrow> int" where
  "rowcount c = - 1"

text \<open>\<^verbatim>\<open>Cursor.close\<close>, lines 127-129.\<close>

definition Cursor_close :: "cursor \<Rightarrow> cursor" where
  "Cursor_close c =
     c\<lparr>self_client := self_client c @ [Disconnected], self_state := CURSOR_CLOSED\<rparr>"

definition begin_query :: "cursor \<Rightarrow> cursor" where
  "begin_query c = c\<lparr>self_state := RUNNING\<rparr>"

definition end_query :: "cursor \<Rightarrow> cursor" where
  "end_query c = c\<lparr>self_state := FINISHED\<rparr>"

definition check_cursor_closed :: "cursor \<Rightarrow> error + unit" where
  "check_cursor_closed c =
     (if self_state c = CURSOR_CLOSED then Inl (Error ''Cursor is closed'') else Inr ())"

definition check_query_started :: "cursor \<Rightarrow> error + unit" where
  "check_query_started c =
     (if self_state c = NONE then Inl (Error ''No query yet'') else Inr ())"

subsection \<open>The non-PEP setters, lines 211-233\<close>

definition set_stream_results :: "bool \<Rightarrow> int \<Rightarrow> cursor \<Rightarrow> cursor" where
  "set_stream_results stream_results max_row_buffer c =
     c\<lparr>self_stream_results := stream_results, self_max_row_buffer := max_row_buffer\<rparr>"

definition set_settings :: "addr option \<Rightarrow> cursor \<Rightarrow> cursor" where
  "set_settings settings c = c\<lparr>self_settings := settings\<rparr>"

definition set_types_check :: "bool \<Rightarrow> cursor \<Rightarrow> cursor" where
  "set_types_check types_check c = c\<lparr>self_types_check := types_check\<rparr>"

definition set_external_table :: "pyval \<Rightarrow> pyval \<Rightarrow> pyval \<Rightarrow> cursor \<Rightarrow> cursor" where
  "set_external_table name struct data c =
     c\<lparr>self_external_tables := AList.update name (struct, data) (self_external_tables c)\<rparr>"

subsection \<open>\<^verbatim>\<open>_prepare\<close>, lines 237-256\<close>

text \<open>
  The list comprehension of lines 238-241. The loop runs over the dictionary itself, that
  is over its keys: each key is unpacked as \<^verbatim>\<open>name, (structure, data)\<close>, and the pair
  stored under the key is not read. The first key that does not unpack ends the
  comprehension with its error.
\<close>

fun external_table_records :: "(pyval \<times> pyval \<times> pyval) list \<Rightarrow> error + external_table list" where
  "external_table_records [] = Inr []"
| "external_table_records ((key, stored) # rest) =
     (case unpack2 key of
        Inl e \<Rightarrow> Inl e
      | Inr (name, packed) \<Rightarrow>
          (case unpack2 packed of
             Inl e \<Rightarrow> Inl e
           | Inr (struct, data) \<Rightarrow>
               (case external_table_records rest of
                  Inl e \<Rightarrow> Inl e
                | Inr recs \<Rightarrow>
                    Inr (\<lparr>table_name = name, table_structure = struct, table_data = data\<rparr>
                         # recs))))"

text \<open>
  \<^verbatim>\<open>self._settings or {}\<close>, line 247: the staged dictionary when it is there and not
  empty, a new empty dictionary otherwise. A reference always points into the heap; the
  model treats one that does not as \<^verbatim>\<open>None\<close>.
\<close>

definition settings_or_new :: "heap \<Rightarrow> addr option \<Rightarrow> addr \<times> heap" where
  "settings_or_new h s =
     (case s of
        None \<Rightarrow> (length h, h @ [[]])
      | Some a \<Rightarrow> if a < length h \<and> h ! a \<noteq> [] then (a, h) else (length h, h @ [[]]))"

definition prepare :: "heap \<Rightarrow> cursor \<Rightarrow> (error + entry_point \<times> execute_kwargs) \<times> heap \<times> cursor" where
  "prepare h c =
     (case external_table_records (self_external_tables c) of
        Inl e \<Rightarrow> (Inl e, h, c)
      | Inr recs \<Rightarrow>
          (let external_tables = (if recs = [] then None else Some recs) in
           if self_stream_results c then
             (case settings_or_new h (self_settings c) of
                (a, h1) \<Rightarrow>
                  (Inr (ClientExecuteIter,
                        \<lparr>kw_settings = Some a, kw_external_tables = external_tables,
                         kw_types_check = self_types_check c\<rparr>),
                   h1[a := AList.update ''max_block_size'' (PInt (self_max_row_buffer c)) (h1 ! a)],
                   c\<lparr>self_settings := Some a\<rparr>))
           else
             (Inr (ClientExecute,
                   \<lparr>kw_settings = self_settings c, kw_external_tables = external_tables,
                    kw_types_check = self_types_check c\<rparr>),
              h, c)))"

subsection \<open>\<^verbatim>\<open>_process_response\<close>, lines 258-279\<close>

text \<open>
  \<^verbatim>\<open>not response\<close>: \<^verbatim>\<open>None\<close> and the number 0 are false; a pair and a lazy sequence
  are true whatever they hold.
\<close>

definition falsy :: "response \<Rightarrow> bool" where
  "falsy r =
     (case r of
        Buffered NoResponse \<Rightarrow> True
      | Buffered (Count n) \<Rightarrow> n = 0
      | Buffered (Result rows cwt) \<Rightarrow> False
      | Lazy s \<Rightarrow> False)"

text \<open>Lines 274-279: \<^verbatim>\<open>zip(*columns_with_types)\<close> splits the header.\<close>

definition store_result :: "columns_with_types \<Rightarrow> rows_value \<Rightarrow> cursor \<Rightarrow> cursor" where
  "store_result cwt rows c =
     (if cwt \<noteq> [] then
        c\<lparr>self_columns := Some (map fst cwt), self_types := Some (map snd cwt), self_rows := rows\<rparr>
      else
        c\<lparr>self_columns := Some [], self_types := Some [], self_rows := rows\<rparr>)"

text \<open>
  With \<^verbatim>\<open>executemany\<close> the response is stored as the row count and then taken to be
  \<^verbatim>\<open>None\<close>. Under the streaming flag the header is pulled with \<^verbatim>\<open>next(response)\<close>:
  \<^verbatim>\<open>StopIteration\<close> on an empty sequence, the client's own error when the pull raises,
  \<^verbatim>\<open>TypeError\<close> when the response is no iterator. Without the flag the response is
  unpacked as a pair, which is a \<^verbatim>\<open>TypeError\<close> for a number. A lazy sequence reaches the
  last branch only if the flag changed between \<^verbatim>\<open>_prepare\<close> and here, which
  \<^verbatim>\<open>execute\<close> and \<^verbatim>\<open>executemany\<close> never do; that branch stands for the failure
  of the unpacking. An error leaves the cursor as it was.
\<close>

definition process_response :: "response \<Rightarrow> bool \<Rightarrow> cursor \<Rightarrow> error + cursor" where
  "process_response response executemany c =
     (let c1 = (if executemany then c\<lparr>self_rowcount := response\<rparr> else c);
          response1 = (if executemany then Buffered NoResponse else response)
      in
        if falsy response1 then
          Inr (c1\<lparr>self_columns := Some [], self_types := Some [], self_rows := RowsList []\<rparr>)
        else if self_stream_results c1 then
          (case response1 of
             Lazy EmptySequence \<Rightarrow> Inl StopIteration
           | Lazy (HeaderThenRows (Raises e) rows) \<Rightarrow> Inl (Uncaught e)
           | Lazy (HeaderThenRows (Yields cwt) rows) \<Rightarrow> Inr (store_result cwt (RowsIter rows) c1)
           | Buffered b \<Rightarrow> Inl TypeError)
        else
          (case response1 of
             Buffered (Result rows cwt) \<Rightarrow> Inr (store_result cwt (RowsList rows) c1)
           | Buffered NoResponse \<Rightarrow> Inl TypeError
           | Buffered (Count n) \<Rightarrow> Inl TypeError
           | Lazy s \<Rightarrow> Inl TypeError))"

subsection \<open>\<^verbatim>\<open>execute\<close> and \<^verbatim>\<open>executemany\<close>, lines 131-165\<close>

definition call_client :: "client_replies \<Rightarrow> entry_point \<Rightarrow> driver_error + response" where
  "call_client replies ep =
     (case ep of
        ClientExecute \<Rightarrow>
          (case execute_reply replies of Inl e \<Rightarrow> Inl e | Inr b \<Rightarrow> Inr (Buffered b))
      | ClientExecuteIter \<Rightarrow>
          (case execute_iter_reply replies of Inl e \<Rightarrow> Inl e | Inr s \<Rightarrow> Inr (Lazy s)))"

definition record_call ::
  "entry_point \<Rightarrow> string \<Rightarrow> pyval \<Rightarrow> bool option \<Rightarrow> execute_kwargs \<Rightarrow> cursor \<Rightarrow> cursor" where
  "record_call ep operation parameters wct kw c =
     c\<lparr>self_client := self_client c @
          [Called \<lparr>call_entry = ep, call_operation = operation, call_params = parameters,
                   call_with_column_types = wct, call_kwargs = kw\<rparr>]\<rparr>"

text \<open>
  Only the call of the entry point and \<^verbatim>\<open>_prepare\<close> stand inside the \<^verbatim>\<open>try\<close>
  block, and only \<^verbatim>\<open>DriverError\<close> is caught there: an error of \<^verbatim>\<open>_prepare\<close> and
  an error of \<^verbatim>\<open>_process_response\<close> leave the method as they are.
\<close>

definition execute ::
  "client_replies \<Rightarrow> string \<Rightarrow> pyval \<Rightarrow> heap \<Rightarrow> cursor \<Rightarrow> (error + unit) \<times> heap \<times> cursor" where
  "execute replies operation parameters h c =
     (case check_cursor_closed c of
        Inl e \<Rightarrow> (Inl e, h, c)
      | Inr u \<Rightarrow>
          (case prepare h (begin_query c) of
             (Inl e, h1, c1) \<Rightarrow> (Inl e, h1, c1)
           | (Inr (ep, kw), h1, c1) \<Rightarrow>
               (let c2 = record_call ep operation parameters (Some True) kw c1 in
                case call_client replies ep of
                  Inl orig \<Rightarrow> (Inl (OperationalError orig), h1, c2)
                | Inr response \<Rightarrow>
                    (case process_response response False c2 of
                       Inl e \<Rightarrow> (Inl e, h1, c2)
                     | Inr c3 \<Rightarrow> (Inr (), h1, end_query c3)))))"

definition executemany ::
  "client_replies \<Rightarrow> string \<Rightarrow> pyval \<Rightarrow> heap \<Rightarrow> cursor \<Rightarrow> (error + unit) \<times> heap \<times> cursor" where
  "executemany replies operation seq_of_parameters h c =
     (case check_cursor_closed c of
        Inl e \<Rightarrow> (Inl e, h, c)
      | Inr u \<Rightarrow>
          (case prepare h (begin_query c) of
             (Inl e, h1, c1) \<Rightarrow> (Inl e, h1, c1)
           | (Inr (ep, kw), h1, c1) \<Rightarrow>
               (let c2 = record_call ep operation seq_of_parameters None kw c1 in
                case call_client replies ep of
                  Inl orig \<Rightarrow> (Inl (OperationalError orig), h1, c2)
                | Inr response \<Rightarrow>
                    (case process_response response True c2 of
                       Inl e \<Rightarrow> (Inl e, h1, c2)
                     | Inr c3 \<Rightarrow> (Inr (), h1, end_query c3)))))"

text \<open>
  The two methods differ in two places only: \<^verbatim>\<open>execute\<close> asks the client for the
  column types, and \<^verbatim>\<open>executemany\<close> has the response unpacked as a row count.
  \<open>query_call\<close> is their common text with these two places as parameters; it serves to
  state and prove facts about both at once.
\<close>

definition query_call ::
  "bool \<Rightarrow> bool option \<Rightarrow> client_replies \<Rightarrow> string \<Rightarrow> pyval \<Rightarrow> heap \<Rightarrow> cursor
     \<Rightarrow> (error + unit) \<times> heap \<times> cursor" where
  "query_call many wct replies operation parameters h c =
     (case check_cursor_closed c of
        Inl e \<Rightarrow> (Inl e, h, c)
      | Inr u \<Rightarrow>
          (case prepare h (begin_query c) of
             (Inl e, h1, c1) \<Rightarrow> (Inl e, h1, c1)
           | (Inr (ep, kw), h1, c1) \<Rightarrow>
               (let c2 = record_call ep operation parameters wct kw c1 in
                case call_client replies ep of
                  Inl orig \<Rightarrow> (Inl (OperationalError orig), h1, c2)
                | Inr response \<Rightarrow>
                    (case process_response response many c2 of
                       Inl e \<Rightarrow> (Inl e, h1, c2)
                     | Inr c3 \<Rightarrow> (Inr (), h1, end_query c3)))))"

subsection \<open>The fetch methods, lines 167-200\<close>

text \<open>
  \<^verbatim>\<open>list(islice(it, n))\<close> for \<open>0 \<le> n\<close>: at most \<open>n\<close> pulls, none after the \<open>n\<close>-th
  element. A pull that raises ends the sequence and loses the rows pulled so far.
\<close>

fun pull_upto :: "nat \<Rightarrow> row pull list \<Rightarrow> (driver_error + row list) \<times> row pull list" where
  "pull_upto n [] = (Inr [], [])"
| "pull_upto n (p # s) =
     (if n = 0 then (Inr [], p # s)
      else
        (case p of
           Raises e \<Rightarrow> (Inl e, [])
         | Yields r \<Rightarrow>
             (case pull_upto (n - 1) s of
                (Inl e, s') \<Rightarrow> (Inl e, s')
              | (Inr rs, s') \<Rightarrow> (Inr (r # rs), s'))))"

text \<open>\<^verbatim>\<open>list(it)\<close>: pulls until the sequence ends or a pull raises.\<close>

fun drain :: "row pull list \<Rightarrow> driver_error + row list" where
  "drain [] = Inr []"
| "drain (Raises e # s) = Inl e"
| "drain (Yields r # s) = (case drain s of Inl e \<Rightarrow> Inl e | Inr rs \<Rightarrow> Inr (r # rs))"

text \<open>
  The slices \<^verbatim>\<open>xs[:k]\<close> and \<^verbatim>\<open>xs[k:]\<close> of a list: a negative \<open>k\<close> counts from the end
  and stops at the start of the list.
\<close>

definition slice_to :: "'a list \<Rightarrow> int \<Rightarrow> 'a list" where
  "slice_to xs k = (if k < 0 then take (nat (int (length xs) + k)) xs else take (nat k) xs)"

definition slice_from :: "'a list \<Rightarrow> int \<Rightarrow> 'a list" where
  "slice_from xs k = (if k < 0 then drop (nat (int (length xs) + k)) xs else drop (nat k) xs)"

text \<open>
  \<^verbatim>\<open>fetchone\<close>. With the streaming flag, \<^verbatim>\<open>next(self._rows, None)\<close>: a list or
  \<^verbatim>\<open>None\<close> is no iterator (\<^verbatim>\<open>TypeError\<close>). Without it, \<^verbatim>\<open>None\<close> and the empty list
  are false; a lazy sequence is true and has no \<^verbatim>\<open>pop\<close> (\<^verbatim>\<open>AttributeError\<close>).
\<close>

definition fetchone :: "cursor \<Rightarrow> (error + row option) \<times> cursor" where
  "fetchone c =
     (case check_query_started c of
        Inl e \<Rightarrow> (Inl e, c)
      | Inr u \<Rightarrow>
          if self_stream_results c then
            (case self_rows c of
               RowsIter [] \<Rightarrow> (Inr None, c)
             | RowsIter (Yields r # s) \<Rightarrow> (Inr (Some r), c\<lparr>self_rows := RowsIter s\<rparr>)
             | RowsIter (Raises e # s) \<Rightarrow> (Inl (Uncaught e), c\<lparr>self_rows := RowsIter []\<rparr>)
             | RowsList rs \<Rightarrow> (Inl TypeError, c)
             | RowsNone \<Rightarrow> (Inl TypeError, c))
          else
            (case self_rows c of
               RowsNone \<Rightarrow> (Inr None, c)
             | RowsList [] \<Rightarrow> (Inr None, c)
             | RowsList (r # rs) \<Rightarrow> (Inr (Some r), c\<lparr>self_rows := RowsList rs\<rparr>)
             | RowsIter s \<Rightarrow> (Inl AttributeError, c)))"

text \<open>
  \<^verbatim>\<open>sys.maxint\<close>, the largest machine integer of the interpreter, on a 64-bit build.
\<close>

definition maxint :: int where
  "maxint = 2 ^ 63 - 1"

text \<open>
  \<^verbatim>\<open>fetchmany\<close>. \<^verbatim>\<open>islice\<close> checks its stop argument before it asks for an iterator and
  refuses with \<^verbatim>\<open>ValueError\<close> one that is negative or above \<^verbatim>\<open>sys.maxint\<close>. Over a
  list, \<^verbatim>\<open>islice\<close> reads a fresh iterator and the list stays as it is. Without the flag
  the rows are sliced, which only a list allows; a slice takes any integer as its bound.
\<close>

definition fetchmany :: "int option \<Rightarrow> cursor \<Rightarrow> (error + row list) \<times> cursor" where
  "fetchmany size_arg c =
     (case check_query_started c of
        Inl e \<Rightarrow> (Inl e, c)
      | Inr u \<Rightarrow>
          (let n = (case size_arg of None \<Rightarrow> arraysize c | Some k \<Rightarrow> k) in
           if self_stream_results c then
             (if n < 0 \<or> maxint < n then (Inl ValueError, c)
              else
                (case self_rows c of
                   RowsNone \<Rightarrow> (Inl TypeError, c)
                 | RowsList rs \<Rightarrow> (Inr (take (nat n) rs), c)
                 | RowsIter s \<Rightarrow>
                     (case pull_upto (nat n) s of
                        (Inl e, s') \<Rightarrow> (Inl (Uncaught e), c\<lparr>self_rows := RowsIter s'\<rparr>)
                      | (Inr rs, s') \<Rightarrow> (Inr rs, c\<lparr>self_rows := RowsIter s'\<rparr>))))
           else
             (case self_rows c of
                RowsList rs \<Rightarrow> (Inr (slice_to rs n), c\<lparr>self_rows := RowsList (slice_from rs n)\<rparr>)
              | RowsNone \<Rightarrow> (Inl TypeError, c)
              | RowsIter s \<Rightarrow> (Inl TypeError, c))))"

text \<open>
  \<^verbatim>\<open>fetchall\<close>. With the flag, \<^verbatim>\<open>list(self._rows)\<close>; without it the method returns
  whatever \<^verbatim>\<open>self._rows\<close> is and puts an empty list in its place.
\<close>

definition fetchall :: "cursor \<Rightarrow> (error + rows_value) \<times> cursor" where
  "fetchall c =
     (case check_query_started c of
        Inl e \<Rightarrow> (Inl e, c)
      | Inr u \<Rightarrow>
          if self_stream_results c then
            (case self_rows c of
               RowsNone \<Rightarrow> (Inl TypeError, c)
             | RowsList rs \<Rightarrow> (Inr (RowsList rs), c)
             | RowsIter s \<Rightarrow>
                 (case drain s of
                    Inl e \<Rightarrow> (Inl (Uncaught e), c\<lparr>self_rows := RowsIter []\<rparr>)
                  | Inr rs \<Rightarrow> (Inr (RowsList rs), c\<lparr>self_rows := RowsIter []\<rparr>)))
          else (Inr (self_rows c), c\<lparr>self_rows := RowsList []\<rparr>))"

section \<open>The connection, lines 53-90\<close>

text \<open>
  The connection keeps the cursors it has issued. \<^verbatim>\<open>_make_client\<close> builds a client from
  the connection parameters without contacting the server: a handle that has been asked
  nothing yet.
\<close>

record connection =
  cursors :: "cursor list"
  dsn :: "string option"
  user :: "string option"
  password :: "string option"
  host :: "string option"
  database :: "string option"

definition make_client :: "connection \<Rightarrow> client_event list" where
  "make_client conn = []"

definition Connection_cursor :: "connection \<Rightarrow> cursor \<times> connection" where
  "Connection_cursor conn =
     (let cur = Cursor_init (make_client conn)
      in (cur, conn\<lparr>cursors := cursors conn @ [cur]\<rparr>))"

text \<open>
  \<^verbatim>\<open>cursor.disconnect()\<close>, line 76. Class \<^verbatim>\<open>Cursor\<close> defines \<^verbatim>\<open>close\<close> and holds its
  client in \<^verbatim>\<open>_client\<close>; neither the class nor \<^verbatim>\<open>__init__\<close> gives a cursor an attribute
  named \<^verbatim>\<open>disconnect\<close>, so looking it up raises \<^verbatim>\<open>AttributeError\<close> before anything is
  called.
\<close>

definition cursor_disconnect :: "cursor \<Rightarrow> (error + unit) \<times> cursor" where
  "cursor_disconnect c = (Inl AttributeError, c)"

text \<open>The loop of \<^verbatim>\<open>Connection.close\<close>, lines 75-76; the first error ends it.\<close>

fun close_cursors :: "cursor list \<Rightarrow> (error + unit) \<times> cursor list" where
  "close_cursors [] = (Inr (), [])"
| "close_cursors (c # cs) =
     (case cursor_disconnect c of
        (Inl e, c') \<Rightarrow> (Inl e, c' # cs)
      | (Inr u, c') \<Rightarrow> (case close_cursors cs of (r, cs') \<Rightarrow> (r, c' # cs')))"

definition Connection_close :: "connection \<Rightarrow> (error + unit) \<times> connection" where
  "Connection_close conn =
     (case close_cursors (cursors conn) of (r, cs) \<Rightarrow> (r, conn\<lparr>cursors := cs\<rparr>))"

section \<open>Sequences of calls\<close>

text \<open>
  A caller's sequence of fetch calls, run one after the other until one of them raises.
  \<open>FetchMany None\<close> is \<^verbatim>\<open>fetchmany()\<close>, \<open>FetchMany (Some k)\<close> is \<^verbatim>\<open>fetchmany(k)\<close>.
\<close>

datatype fetch_op = FetchOne | FetchMany "int option" | FetchAll

datatype fetch_result = GotOne "row option" | GotMany "row list" | GotAll rows_value

definition fetch :: "fetch_op \<Rightarrow> cursor \<Rightarrow> (error + fetch_result) \<times> cursor" where
  "fetch f c =
     (case f of
        FetchOne \<Rightarrow>
          (case fetchone c of (Inl e, c') \<Rightarrow> (Inl e, c') | (Inr r, c') \<Rightarrow> (Inr (GotOne r), c'))
      | FetchMany k \<Rightarrow>
          (case fetchmany k c of (Inl e, c') \<Rightarrow> (Inl e, c') | (Inr rs, c') \<Rightarrow> (Inr (GotMany rs), c'))
      | FetchAll \<Rightarrow>
          (case fetchall c of (Inl e, c') \<Rightarrow> (Inl e, c') | (Inr v, c') \<Rightarrow> (Inr (GotAll v), c')))"

fun fetch_sequence :: "fetch_op list \<Rightarrow> cursor \<Rightarrow> (error + fetch_result list) \<times> cursor" where
  "fetch_sequence [] c = (Inr [], c)"
| "fetch_sequence (f # fs) c =
     (case fetch f c of
        (Inl e, c') \<Rightarrow> (Inl e, c')
      | (Inr r, c') \<Rightarrow>
          (case fetch_sequence fs c' of
             (Inl e, c'') \<Rightarrow> (Inl e, c'')
           | (Inr rs, c'') \<Rightarrow> (Inr (r # rs), c'')))"

text \<open>
  The rows a fetch call handed to the caller: the null marker of \<^verbatim>\<open>fetchone\<close> is no row.
  (\<^verbatim>\<open>fetchall\<close> without the streaming flag can hand back a value that is no list; it
  holds no fetched rows.)
\<close>

fun fetched_rows :: "fetch_result \<Rightarrow> row list" where
  "fetched_rows (GotOne None) = []"
| "fetched_rows (GotOne (Some r)) = [r]"
| "fetched_rows (GotMany rs) = rs"
| "fetched_rows (GotAll (RowsList rs)) = rs"
| "fetched_rows (GotAll RowsNone) = []"
| "fetched_rows (GotAll (RowsIter s)) = []"

text \<open>An empty or null result: \<^verbatim>\<open>None\<close> from \<^verbatim>\<open>fetchone\<close>, \<^verbatim>\<open>[]\<close> from the others.\<close>

fun empty_result :: "fetch_result \<Rightarrow> bool" where
  "empty_result (GotOne r) = (r = None)"
| "empty_result (GotMany rs) = (rs = [])"
| "empty_result (GotAll v) = (v = RowsList [])"

text \<open>
  A fetch call whose size, if it takes one, is given, is not negative and, on a cursor
  with the given streaming flag set, is not above \<^verbatim>\<open>sys.maxint\<close>.
\<close>

fun explicit_size :: "bool \<Rightarrow> fetch_op \<Rightarrow> bool" where
  "explicit_size streaming FetchOne = True"
| "explicit_size streaming (FetchMany None) = False"
| "explicit_size streaming (FetchMany (Some k)) =
     (0 \<le> k \<and> (if streaming then k \<le> maxint else True))"
| "explicit_size streaming FetchAll = True"

text \<open>
  The result set of a query, as the client delivers it to a cursor with the given streaming
  flag: the rows of the pair (no rows when the answer is \<^verbatim>\<open>None\<close> or a count), or the
  rows a lazy sequence produces after its header if no pull fails. \<open>None\<close> when the client
  delivers no such result.
\<close>

definition result_set :: "client_replies \<Rightarrow> bool \<Rightarrow> row list option" where
  "result_set replies streaming =
     (if streaming then
        (case execute_iter_reply replies of
           Inr (HeaderThenRows (Yields cwt) s) \<Rightarrow>
             (case drain s of Inr rs \<Rightarrow> Some rs | Inl e \<Rightarrow> None)
         | Inr (HeaderThenRows (Raises e) s) \<Rightarrow> None
         | Inr EmptySequence \<Rightarrow> None
         | Inl e \<Rightarrow> None)
      else
        (case execute_reply replies of
           Inr (Result rows cwt) \<Rightarrow> Some rows
         | Inr NoResponse \<Rightarrow> Some []
         | Inr (Count n) \<Rightarrow> Some []
         | Inl e \<Rightarrow> None))"

text \<open>
  The cursor has run a query and holds the rows \<open>R\<close>, none of them fetched: as a list
  in buffered mode, as a lazy sequence that will produce them in streaming mode.
\<close>

definition unfetched :: "cursor \<Rightarrow> row list \<Rightarrow> bool" where
  "unfetched c R =
     (self_state c \<noteq> NONE
      \<and> (if self_stream_results c then self_rows c = RowsIter (map Yields R)
         else self_rows c = RowsList R))"

text \<open>
  A caller's sequence of \<^verbatim>\<open>execute\<close> and \<^verbatim>\<open>executemany\<close> calls, each with the answer the
  client gives to it. The caller goes on after a call that raised.
\<close>

datatype command =
    Execute client_replies string pyval
  | ExecuteMany client_replies string pyval

definition run_command :: "command \<Rightarrow> heap \<times> cursor \<Rightarrow> heap \<times> cursor" where
  "run_command cmd hc =
     (case cmd of
        Execute replies operation parameters \<Rightarrow>
          snd (execute replies operation parameters (fst hc) (snd hc))
      | ExecuteMany replies operation seq_of_parameters \<Rightarrow>
          snd (executemany replies operation seq_of_parameters (fst hc) (snd hc)))"

fun run_commands :: "command list \<Rightarrow> heap \<times> cursor \<Rightarrow> heap \<times> cursor" where
  "run_commands [] hc = hc"
| "run_commands (cmd # cmds) hc = run_commands cmds (run_command cmd hc)"

text \<open>The value the staged settings give a key; no settings give none.\<close>

definition staged_setting :: "heap \<Rightarrow> cursor \<Rightarrow> string \<Rightarrow> pyval option" where
  "staged_setting h c k =
     (case self_settings c of None \<Rightarrow> None | Some a \<Rightarrow> map_of (h ! a) k)"

text \<open>The staged settings reference, when there is one, points into the heap.\<close>

definition settings_allocated :: "heap \<Rightarrow> cursor \<Rightarrow> bool" where
  "settings_allocated h c = (case self_settings c of None \<Rightarrow> True | Some a \<Rightarrow> a < length h)"

section \<open>Sample data\<close>

definition sample_header :: columns_with_types where
  "sample_header = [(''x'', ''UInt8'')]"

definition sample_rows :: "row list" where
  "sample_rows = [[PInt 1], [PInt 2], [PInt 3]]"

text \<open>A client that answers a query with the three sample rows, on either entry point.\<close>

definition select_replies :: client_replies where
  "select_replies =
     \<lparr>execute_reply = Inr (Result sample_rows sample_header),
      execute_iter_reply = Inr (HeaderThenRows (Yields sample_header) (map Yields sample_rows))\<rparr>"

text \<open>A client whose call raises its native error.\<close>

definition failing_replies :: client_replies where
  "failing_replies =
     \<lparr>execute_reply = Inl (DriverError ''server error''),
      execute_iter_reply = Inl (DriverError ''server error'')\<rparr>"

text \<open>
  A client that reports two rows written; its lazy entry point hands back a sequence whose
  first pull raises, as when the server rejects the query.
\<close>

definition insert_replies :: client_replies where
  "insert_replies =
     \<lparr>execute_reply = Inr (Count 2),
      execute_iter_reply = Inr (HeaderThenRows (Raises (DriverError ''server error'')) [])\<rparr>"

text \<open>A new cursor with one external table registered under the name \<^verbatim>\<open>ext\<close>.\<close>

definition ext_cursor :: cursor where
  "ext_cursor =
     set_external_table (PStr ''ext'') (PList [PTuple [PStr ''x'', PStr ''Int32'']])
       (PList [PTuple [PInt 1]]) (Cursor_init [])"

text \<open>A new cursor switched to streaming with a row buffer of 100.\<close>

definition streaming_cursor :: cursor where
  "streaming_cursor = set_stream_results True 100 (Cursor_init [])"

text \<open>The cursor after a buffered and after a streaming query that the client answered.\<close>

definition buffered_finished :: cursor where
  "buffered_finished =
     snd (snd (execute select_replies ''SELECT x FROM t'' PNone [] (Cursor_init [])))"

definition streaming_finished :: cursor where
  "streaming_finished =
     snd (snd (execute select_replies ''SELECT x FROM t'' PNone [] streaming_cursor))"

text \<open>
  A settings dictionary the caller made, at address 0 of the heap, and a streaming cursor
  on which the caller staged it with \<^verbatim>\<open>set_settings\<close>.
\<close>

definition tuned_heap :: heap where
  "tuned_heap = [[(''max_threads'', PInt 4), (''max_block_size'', PInt 5)]]"

definition tuned_cursor :: cursor where
  "tuned_cursor = set_settings (Some 0) streaming_cursor"

section \<open>Evaluating the sample data\<close>

lemmas method_defs = Cursor_init_def reset_state_def set_external_table_def
  set_stream_results_def set_settings_def set_types_check_def begin_query_def end_query_def
  check_cursor_closed_def check_query_started_def prepare_def settings_or_new_def
  process_response_def falsy_def store_result_def call_client_def record_call_def execute_def
  executemany_def unpack2_def

lemmas sample_defs = sample_header_def sample_rows_def select_replies_def failing_replies_def
  insert_replies_def ext_cursor_def streaming_cursor_def buffered_finished_def
  streaming_finished_def

lemma buffered_finished_eq:
  "buffered_finished =
     (Cursor_init [])
       \<lparr>self_client :=
          [Called \<lparr>call_entry = ClientExecute, call_operation = ''SELECT x FROM t'',
                   call_params = PNone, call_with_column_types = Some True,
                   call_kwargs = \<lparr>kw_settings = None, kw_external_tables = None,
                                  kw_types_check = False\<rparr>\<rparr>],
        self_state := FINISHED, self_columns := Some [''x''], self_types := Some [''UInt8''],
        self_rows := RowsList sample_rows\<rparr>"
  by (simp add: method_defs sample_defs)

lemma streaming_finished_eq:
  "streaming_finished =
     streaming_cursor
       \<lparr>self_client :=
          [Called \<lparr>call_entry = ClientExecuteIter, call_operation = ''SELECT x FROM t'',
                   call_params = PNone, call_with_column_types = Some True,
                   call_kwargs = \<lparr>kw_settings = Some 0, kw_external_tables = None,
                                  kw_types_check = False\<rparr>\<rparr>],
        self_state := FINISHED, self_columns := Some [''x''], self_types := Some [''UInt8''],
        self_rows := RowsIter (map Yields sample_rows), self_settings := Some 0\<rparr>"
  by (simp add: method_defs sample_defs)

section \<open>External tables never reach the client (C1)\<close>

lemma external_table_records_string_key:
  "external_table_records ((PStr s, stored) # rest) = Inl ValueError"
  by (auto simp: unpack2_def split: list.splits)

lemma prepare_string_key:
  assumes "self_external_tables c = (PStr s, stored) # rest"
  shows "prepare h c = (Inl ValueError, h, c)"
  unfolding prepare_def assms external_table_records_string_key by simp

lemma external_tables_begin_query [simp]:
  "self_external_tables (begin_query c) = self_external_tables c"
  by (simp add: begin_query_def)

text \<open>
  With no table registered, the client is given \<open>None\<close> for \<^verbatim>\<open>external_tables\<close>, not an
  empty list.
\<close>

lemma prepare_no_tables:
  assumes "self_external_tables c = []"
  shows "\<exists>ep kw h1 c1. prepare h c = (Inr (ep, kw), h1, c1) \<and> kw_external_tables kw = None"
  using assms by (simp add: prepare_def Let_def split: prod.splits)

text \<open>
  C1. The claim: \<^verbatim>\<open>execute\<close> hands every registered (name, structure, data) triple to
  the client. The code: the comprehension of \<^verbatim>\<open>_prepare\<close> runs over the keys of the
  table dictionary and unpacks each key. A name that is a string never unpacks, so with a
  table registered under a string name \<^verbatim>\<open>execute\<close> and \<^verbatim>\<open>executemany\<close> raise
  \<^verbatim>\<open>ValueError\<close> and the client is not called at all.
\<close>

theorem C1_string_named_table_raises:
  assumes "self_state c \<noteq> CURSOR_CLOSED"
      and "self_external_tables c = (PStr s, stored) # rest"
  shows "execute replies operation parameters h c = (Inl ValueError, h, begin_query c)
       \<and> executemany replies operation parameters h c = (Inl ValueError, h, begin_query c)
       \<and> self_client (begin_query c) = self_client c"
proof -
  have "prepare h (begin_query c) = (Inl ValueError, h, begin_query c)"
    using assms(2) by (intro prepare_string_key) simp
  then show ?thesis
    using assms(1)
    by (simp add: execute_def executemany_def check_cursor_closed_def begin_query_def)
qed

theorem C1_string_named_table_raises_witness:
  "execute select_replies ''SELECT * FROM ext'' PNone [] ext_cursor
     = (Inl ValueError, [], begin_query ext_cursor)
   \<and> self_client (begin_query ext_cursor) = []
   \<and> self_external_tables ext_cursor
     = [(PStr ''ext'', PList [PTuple [PStr ''x'', PStr ''Int32'']], PList [PTuple [PInt 1]])]"
  using C1_string_named_table_raises
    [of ext_cursor "''ext''" _ "[]" select_replies "''SELECT * FROM ext''" PNone "[]"]
  by (simp add: ext_cursor_def set_external_table_def Cursor_init_def reset_state_def
      begin_query_def)

section \<open>The row count (C2)\<close>

text \<open>
  C2. The claim: right after an \<^verbatim>\<open>executemany\<close> the \<^verbatim>\<open>rowcount\<close> property is the
  count the driver reported. The code: \<^verbatim>\<open>executemany\<close> stores the count in
  \<^verbatim>\<open>_rowcount\<close>, and the property returns the literal \<^verbatim>\<open>-1\<close> without reading it.
\<close>

theorem C2_rowcount_ignores_stored_count:
  assumes "self_state c \<noteq> CURSOR_CLOSED"
      and "self_external_tables c = []"
      and "\<not> self_stream_results c"
      and "execute_reply replies = Inr (Count n)"
  shows "\<exists>c'. executemany replies operation seq_of_parameters h c = (Inr (), h, c')
            \<and> self_state c' = FINISHED
            \<and> self_rowcount c' = Buffered (Count n)
            \<and> rowcount c' = - 1"
  using assms
  by (simp add: executemany_def check_cursor_closed_def prepare_def begin_query_def
      call_client_def record_call_def process_response_def falsy_def end_query_def rowcount_def)

theorem C2_rowcount_ignores_stored_count_witness:
  "\<exists>c'. executemany insert_replies ''INSERT INTO t (x) VALUES''
           (PList [PDict [(PStr ''x'', PInt 1)], PDict [(PStr ''x'', PInt 2)]]) [] (Cursor_init [])
           = (Inr (), [], c')
       \<and> self_state c' = FINISHED
       \<and> self_rowcount c' = Buffered (Count 2)
       \<and> rowcount c' = - 1"
  using C2_rowcount_ignores_stored_count [of "Cursor_init []" insert_replies 2]
  by (simp add: Cursor_init_def reset_state_def insert_replies_def)

section \<open>Closing a connection (C4)\<close>

lemma close_cursors_nonempty: "cs \<noteq> [] \<Longrightarrow> close_cursors cs = (Inl AttributeError, cs)"
  by (cases cs) (simp_all add: cursor_disconnect_def)

lemma Connection_close_no_cursors:
  "cursors conn = [] \<Longrightarrow> Connection_close conn = (Inr (), conn)"
  by (simp add: Connection_close_def)

text \<open>
  C4. The claim: \<^verbatim>\<open>Connection.close\<close> disconnects the client of every issued cursor and
  raises nothing. The code: the loop calls \<^verbatim>\<open>cursor.disconnect()\<close>, a method class
  \<^verbatim>\<open>Cursor\<close> does not have, so on a connection that has issued a cursor \<^verbatim>\<open>close\<close>
  raises \<^verbatim>\<open>AttributeError\<close> at the first one and no client is disconnected.
\<close>

theorem C4_close_raises_on_first_cursor:
  assumes "cursors conn \<noteq> []"
  shows "Connection_close conn = (Inl AttributeError, conn)"
  using assms by (simp add: Connection_close_def close_cursors_nonempty)

theorem C4_close_raises_on_first_cursor_witness:
  "Connection_close
     (snd (Connection_cursor
        \<lparr>cursors = [], dsn = None, user = None, password = None, host = Some ''localhost'',
         database = None\<rparr>))
    = (Inl AttributeError,
       \<lparr>cursors = [Cursor_init []], dsn = None, user = None, password = None,
        host = Some ''localhost'', database = None\<rparr>)
   \<and> Disconnected \<notin> set (self_client (Cursor_init []))"
  using C4_close_raises_on_first_cursor
    [of "snd (Connection_cursor
        \<lparr>cursors = [], dsn = None, user = None, password = None, host = Some ''localhost'',
         database = None\<rparr>)"]
  by (simp add: Connection_cursor_def make_client_def Let_def Cursor_init_def reset_state_def)

section \<open>Which errors leave the cursor (C5)\<close>

lemma execute_closed:
  "self_state c = CURSOR_CLOSED \<Longrightarrow>
     execute replies operation parameters h c = (Inl (Error ''Cursor is closed''), h, c)"
  by (simp add: execute_def check_cursor_closed_def)

lemma executemany_closed:
  "self_state c = CURSOR_CLOSED \<Longrightarrow>
     executemany replies operation parameters h c = (Inl (Error ''Cursor is closed''), h, c)"
  by (simp add: executemany_def check_cursor_closed_def)

lemma fetch_before_query:
  assumes "self_state c = NONE"
  shows "fetchone c = (Inl (Error ''No query yet''), c)"
    and "fetchmany k c = (Inl (Error ''No query yet''), c)"
    and "fetchall c = (Inl (Error ''No query yet''), c)"
  using assms by (simp_all add: fetchone_def fetchmany_def fetchall_def check_query_started_def)

text \<open>
  C5. The claim: the client's native error never leaves the adapter. The code: the
  \<^verbatim>\<open>try\<close> block of \<^verbatim>\<open>execute\<close> ends before \<^verbatim>\<open>_process_response\<close>, which in
  streaming mode pulls the header from the lazy sequence; when that pull raises the
  client's error (the server answers with one), the error leaves \<^verbatim>\<open>execute\<close> unwrapped.
\<close>

theorem C5_native_error_escapes_streaming_execute:
  assumes "self_state c \<noteq> CURSOR_CLOSED"
      and "self_external_tables c = []"
      and "self_stream_results c"
      and "execute_iter_reply replies = Inr (HeaderThenRows (Raises e) rows)"
  shows "fst (execute replies operation parameters h c) = Inl (Uncaught e)"
  using assms
  by (simp add: execute_def check_cursor_closed_def prepare_def begin_query_def
      call_client_def record_call_def process_response_def falsy_def Let_def split: prod.splits)

theorem C5_native_error_escapes_streaming_execute_witness:
  "fst (execute insert_replies ''SELECT 1 FROM missing'' PNone [] streaming_cursor)
     = Inl (Uncaught (DriverError ''server error''))"
  using C5_native_error_escapes_streaming_execute
    [of streaming_cursor insert_replies "DriverError ''server error''" "[]"]
  by (simp add: streaming_cursor_def set_stream_results_def Cursor_init_def reset_state_def
      insert_replies_def)

section \<open>The steps of a query call\<close>

lemma execute_query_call: "execute = query_call False (Some True)"
  by (simp add: fun_eq_iff execute_def query_call_def)

lemma executemany_query_call: "executemany = query_call True None"
  by (simp add: fun_eq_iff executemany_def query_call_def)

lemma prepare_error_unchanged:
  "prepare h c = (Inl e, h1, c1) \<Longrightarrow> h1 = h \<and> c1 = c"
  by (auto simp: prepare_def Let_def split: sum.splits prod.splits if_splits)

lemma prepare_frame:
  "prepare h c = (r, h1, c1) \<Longrightarrow> c1 = c\<lparr>self_settings := self_settings c1\<rparr>"
  by (auto simp: prepare_def Let_def split: sum.splits prod.splits if_splits)

lemma prepare_result_fields:
  "prepare h (c\<lparr>self_columns := x, self_types := y, self_rows := z\<rparr>) =
     (case prepare h c of (r, h1, c1) \<Rightarrow> (r, h1, c1\<lparr>self_columns := x, self_types := y, self_rows := z\<rparr>))"
  by (simp add: prepare_def Let_def split: sum.splits prod.splits)

lemma process_response_result_fields:
  "process_response resp many (c\<lparr>self_columns := x, self_types := y, self_rows := z\<rparr>) =
     process_response resp many c"
  by (simp add: process_response_def store_result_def Let_def
      split: response.splits buffered_response.splits lazy_response.splits pull.splits)

lemma process_response_frame:
  "process_response resp many c = Inr c3 \<Longrightarrow>
     c3 = c\<lparr>self_columns := self_columns c3, self_types := self_types c3,
            self_rows := self_rows c3, self_rowcount := self_rowcount c3\<rparr>"
  by (auto simp: process_response_def store_result_def Let_def
      split: response.splits buffered_response.splits lazy_response.splits pull.splits if_splits)

lemma query_call_cases [consumes 1, case_names prepare_error client_error response_error success]:
  assumes "self_state c \<noteq> CURSOR_CLOSED"
  obtains
    e where "prepare h (begin_query c) = (Inl e, h, begin_query c)"
      and "query_call many wct replies operation parameters h c = (Inl e, h, begin_query c)"
  | ep kw h1 c1 orig where "prepare h (begin_query c) = (Inr (ep, kw), h1, c1)"
      and "call_client replies ep = Inl orig"
      and "query_call many wct replies operation parameters h c =
             (Inl (OperationalError orig), h1, record_call ep operation parameters wct kw c1)"
  | ep kw h1 c1 resp e where "prepare h (begin_query c) = (Inr (ep, kw), h1, c1)"
      and "call_client replies ep = Inr resp"
      and "process_response resp many (record_call ep operation parameters wct kw c1) = Inl e"
      and "query_call many wct replies operation parameters h c =
             (Inl e, h1, record_call ep operation parameters wct kw c1)"
  | ep kw h1 c1 resp c3 where "prepare h (begin_query c) = (Inr (ep, kw), h1, c1)"
      and "call_client replies ep = Inr resp"
      and "process_response resp many (record_call ep operation parameters wct kw c1) = Inr c3"
      and "query_call many wct replies operation parameters h c = (Inr (), h1, end_query c3)"
proof -
  have open_: "check_cursor_closed c = Inr ()"
    using assms by (simp add: check_cursor_closed_def)
  obtain r h1 c1 where P: "prepare h (begin_query c) = (r, h1, c1)"
    by (cases "prepare h (begin_query c)") auto
  show thesis
  proof (cases r)
    case (Inl e)
    with P prepare_error_unchanged [of h "begin_query c" e h1 c1]
    have "prepare h (begin_query c) = (Inl e, h, begin_query c)" by simp
    moreover from this open_
    have "query_call many wct replies operation parameters h c = (Inl e, h, begin_query c)"
      by (simp add: query_call_def)
    ultimately show thesis using that(1) by blast
  next
    case (Inr epkw)
    obtain ep kw where epkw: "epkw = (ep, kw)" by (cases epkw) auto
    have P': "prepare h (begin_query c) = (Inr (ep, kw), h1, c1)"
      using P Inr epkw by simp
    show thesis
    proof (cases "call_client replies ep")
      case (Inl orig)
      with P' open_
      have "query_call many wct replies operation parameters h c =
              (Inl (OperationalError orig), h1, record_call ep operation parameters wct kw c1)"
        by (simp add: query_call_def)
      with P' Inl show thesis using that(2) by blast
    next
      case resp: (Inr resp)
      show thesis
      proof (cases "process_response resp many (record_call ep operation parameters wct kw c1)")
        case (Inl e)
        with P' open_ resp
        have "query_call many wct replies operation parameters h c =
                (Inl e, h1, record_call ep operation parameters wct kw c1)"
          by (simp add: query_call_def)
        with P' resp Inl show thesis using that(3) by blast
      next
        case (Inr c3)
        with P' open_ resp
        have "query_call many wct replies operation parameters h c = (Inr (), h1, end_query c3)"
          by (simp add: query_call_def)
        with P' resp Inr show thesis using that(4) by blast
      qed
    qed
  qed
qed

lemma query_call_result_fields:
  assumes "query_call many wct replies operation parameters h c = (Inr (), h', c')"
  shows "query_call many wct replies operation parameters h
           (c\<lparr>self_columns := x, self_types := y, self_rows := z\<rparr>) = (Inr (), h', c')"
proof -
  have b: "begin_query (c\<lparr>self_columns := x, self_types := y, self_rows := z\<rparr>)
         = (begin_query c)\<lparr>self_columns := x, self_types := y, self_rows := z\<rparr>"
    by (simp add: begin_query_def)
  have r: "record_call ep operation parameters wct kw
             (d\<lparr>self_columns := x, self_types := y, self_rows := z\<rparr>)
         = (record_call ep operation parameters wct kw d)
             \<lparr>self_columns := x, self_types := y, self_rows := z\<rparr>" for ep kw d
    by (simp add: record_call_def)
  have k: "check_cursor_closed (c\<lparr>self_columns := x, self_types := y, self_rows := z\<rparr>)
         = check_cursor_closed c"
    by (simp add: check_cursor_closed_def)
  show ?thesis
    using assms
    unfolding query_call_def k b prepare_result_fields
    by (auto simp: r process_response_result_fields Let_def split: sum.splits prod.splits)
qed

lemma query_call_of_method:
  assumes "call = execute replies operation parameters \<or> call = executemany replies operation parameters"
  obtains many wct where "call = query_call many wct replies operation parameters"
  using assms execute_query_call executemany_query_call by metis

section \<open>The result state across a query call (C6)\<close>

text \<open>
  C6, as amended. On entry, \<^verbatim>\<open>execute\<close> and \<^verbatim>\<open>executemany\<close> on a cursor that is not
  closed move the state to \<open>RUNNING\<close> and leave columns, types and the row buffer as they
  are (\<^verbatim>\<open>_begin_query\<close> sets the state and nothing else). A call that succeeds ends in
  \<open>FINISHED\<close> with all three replaced by what unpacking the response gives: the outcome
  is the same whatever they held before. A call that fails leaves the cursor \<open>RUNNING\<close>
  with the columns, types and rows it had before the call.
\<close>

theorem C6_result_state_kept_until_success:
  assumes "self_state c \<noteq> CURSOR_CLOSED"
      and "call = execute replies operation parameters
           \<or> call = executemany replies operation parameters"
      and "call h c = (r, h', c')"
  shows "self_state (begin_query c) = RUNNING
       \<and> self_columns (begin_query c) = self_columns c
       \<and> self_types (begin_query c) = self_types c
       \<and> self_rows (begin_query c) = self_rows c
       \<and> (case r of
            Inr u \<Rightarrow>
              self_state c' = FINISHED
              \<and> call h (c\<lparr>self_columns := cols, self_types := tys, self_rows := rws\<rparr>)
                  = (Inr (), h', c')
          | Inl e \<Rightarrow>
              self_state c' = RUNNING
              \<and> self_columns c' = self_columns c
              \<and> self_types c' = self_types c
              \<and> self_rows c' = self_rows c)"
proof -
  obtain many wct where call: "call = query_call many wct replies operation parameters"
    using assms(2) by (rule query_call_of_method)
  have entry: "self_state (begin_query c) = RUNNING
       \<and> self_columns (begin_query c) = self_columns c
       \<and> self_types (begin_query c) = self_types c
       \<and> self_rows (begin_query c) = self_rows c"
    by (simp add: begin_query_def)
  have prepared: "self_state c1 = RUNNING \<and> self_columns c1 = self_columns c
       \<and> self_types c1 = self_types c \<and> self_rows c1 = self_rows c"
    if "prepare h (begin_query c) = (rp, h1, c1)" for rp h1 c1
  proof -
    from prepare_frame [OF that]
    obtain s where "c1 = (begin_query c)\<lparr>self_settings := s\<rparr>" by blast
    then show ?thesis by (simp add: begin_query_def)
  qed
  have exit: "(case r of
            Inr u \<Rightarrow>
              self_state c' = FINISHED
              \<and> call h (c\<lparr>self_columns := cols, self_types := tys, self_rows := rws\<rparr>)
                  = (Inr (), h', c')
          | Inl e \<Rightarrow>
              self_state c' = RUNNING
              \<and> self_columns c' = self_columns c
              \<and> self_types c' = self_types c
              \<and> self_rows c' = self_rows c)"
    using assms(1)
  proof (cases rule: query_call_cases [where c = c and h = h and many = many and wct = wct
        and replies = replies and operation = operation and parameters = parameters])
    case (prepare_error e)
    with assms(3) call have "r = Inl e" "c' = begin_query c" by simp_all
    with entry show ?thesis by simp
  next
    case (client_error ep kw h1 c1 orig)
    with assms(3) call
    have "r = Inl (OperationalError orig)"
      and "c' = record_call ep operation parameters wct kw c1" by simp_all
    with prepared [OF client_error(1)] show ?thesis
      by (simp add: record_call_def)
  next
    case (response_error ep kw h1 c1 resp e)
    with assms(3) call
    have "r = Inl e" and "c' = record_call ep operation parameters wct kw c1" by simp_all
    with prepared [OF response_error(1)] show ?thesis
      by (simp add: record_call_def)
  next
    case (success ep kw h1 c1 resp c3)
    with assms(3) call have r: "r = Inr ()" "h' = h1" "c' = end_query c3" by simp_all
    have "query_call many wct replies operation parameters h
            (c\<lparr>self_columns := cols, self_types := tys, self_rows := rws\<rparr>) = (Inr (), h', c')"
      using success(4) r by (intro query_call_result_fields) simp
    with r call show ?thesis by (simp add: end_query_def)
  qed
  from entry exit show ?thesis by simp
qed

theorem C6_result_state_kept_until_success_witness:
  "self_state buffered_finished \<noteq> CURSOR_CLOSED
   \<and> fst (execute failing_replies ''SELECT y FROM t'' PNone [] buffered_finished)
       = Inl (OperationalError (DriverError ''server error''))
   \<and> self_state (snd (snd (execute failing_replies ''SELECT y FROM t'' PNone [] buffered_finished)))
       = RUNNING
   \<and> self_rows (snd (snd (execute failing_replies ''SELECT y FROM t'' PNone [] buffered_finished)))
       = RowsList sample_rows"
  using C6_result_state_kept_until_success
    [of buffered_finished "execute failing_replies ''SELECT y FROM t'' PNone" failing_replies
        "''SELECT y FROM t''" PNone "[]"
        "fst (execute failing_replies ''SELECT y FROM t'' PNone [] buffered_finished)"
        "fst (snd (execute failing_replies ''SELECT y FROM t'' PNone [] buffered_finished))"
        "snd (snd (execute failing_replies ''SELECT y FROM t'' PNone [] buffered_finished))"]
  by (simp add: buffered_finished_eq method_defs failing_replies_def)

text \<open>
  The claim as stated fails: entering a query does not clear the row buffer, and after a
  query that failed with a client error the rows of the query before are still fetched.
\<close>

theorem C6_counterexample:
  "self_rows (begin_query buffered_finished) = RowsList sample_rows
   \<and> fst (execute failing_replies ''SELECT y FROM t'' PNone [] buffered_finished)
       = Inl (OperationalError (DriverError ''server error''))
   \<and> fst (fetchall (snd (snd (execute failing_replies ''SELECT y FROM t'' PNone [] buffered_finished))))
       = Inr (RowsList sample_rows)"
  by (simp add: buffered_finished_eq method_defs failing_replies_def fetchall_def)

section \<open>\<^verbatim>\<open>fetchmany\<close> without a size (C3)\<close>



text \<open>In streaming mode a negative size is refused, whatever the rows are.\<close>

lemma fetchmany_streaming_negative:
  assumes "self_state c \<noteq> NONE" and "self_stream_results c" and "k < 0"
  shows "fetchmany (Some k) c = (Inl ValueError, c)"
  using assms by (simp add: fetchmany_def check_query_started_def Let_def)




section \<open>Fetching a result set (C7)\<close>

lemma drain_Yields: "drain (map Yields rs) = Inr rs"
  by (induction rs) simp_all

lemma drain_Inr: "drain s = Inr rs \<Longrightarrow> s = map Yields rs"
proof (induction s arbitrary: rs)
  case Nil
  then show ?case by simp
next
  case (Cons p s)
  then show ?case
    by (cases p) (auto split: sum.splits)
qed

lemma pull_upto_Yields:
  "pull_upto n (map Yields rs) = (Inr (take n rs), map Yields (drop n rs))"
proof (induction rs arbitrary: n)
  case Nil
  then show ?case by simp
next
  case (Cons r rs)
  then show ?case by (cases n) simp_all
qed

lemma fetchone_unfetched:
  assumes "unfetched c R"
  shows "\<exists>r c' R'. fetchone c = (Inr r, c') \<and> unfetched c' R'
           \<and> self_stream_results c' = self_stream_results c
           \<and> fetched_rows (GotOne r) @ R' = R"
proof (cases R)
  case Nil
  with assms have "fetchone c = (Inr None, c)"
    by (simp add: unfetched_def fetchone_def check_query_started_def split: if_splits)
  with assms Nil show ?thesis by simp
next
  case (Cons r rs)
  let ?c' = "c\<lparr>self_rows := if self_stream_results c then RowsIter (map Yields rs)
                               else RowsList rs\<rparr>"
  from Cons assms have "fetchone c = (Inr (Some r), ?c')"
    by (simp add: unfetched_def fetchone_def check_query_started_def split: if_splits)
  moreover from assms have "unfetched ?c' rs"
    by (simp add: unfetched_def)
  moreover have "self_stream_results ?c' = self_stream_results c" by simp
  ultimately show ?thesis using Cons by simp
qed

lemma fetchmany_unfetched:
  assumes "unfetched c R" and "0 \<le> k" and "self_stream_results c \<Longrightarrow> k \<le> maxint"
  shows "\<exists>rs c' R'. fetchmany (Some k) c = (Inr rs, c') \<and> unfetched c' R'
           \<and> self_stream_results c' = self_stream_results c \<and> rs @ R' = R"
proof -
  let ?c' = "c\<lparr>self_rows := if self_stream_results c then RowsIter (map Yields (drop (nat k) R))
                               else RowsList (drop (nat k) R)\<rparr>"
  have "fetchmany (Some k) c = (Inr (take (nat k) R), ?c')"
  proof (cases "self_stream_results c")
    case True
    with assms(3) have "\<not> maxint < k" by simp
    with True assms(1,2) show ?thesis
      by (simp add: unfetched_def fetchmany_def check_query_started_def Let_def
          pull_upto_Yields)
  next
    case False
    with assms(1,2) show ?thesis
      by (simp add: unfetched_def fetchmany_def check_query_started_def Let_def slice_to_def
          slice_from_def)
  qed
  moreover from assms(1) have "unfetched ?c' (drop (nat k) R)"
    by (simp add: unfetched_def)
  moreover have "self_stream_results ?c' = self_stream_results c" by simp
  moreover have "take (nat k) R @ drop (nat k) R = R" by simp
  ultimately show ?thesis by blast
qed

lemma fetchall_unfetched:
  assumes "unfetched c R"
  shows "fetchall c = (Inr (RowsList R), c\<lparr>self_rows := if self_stream_results c then RowsIter [] else RowsList []\<rparr>)"
    and "unfetched (c\<lparr>self_rows := if self_stream_results c then RowsIter [] else RowsList []\<rparr>) []"
  using assms
  by (simp_all add: unfetched_def fetchall_def check_query_started_def drain_Yields split: if_splits)

lemma fetch_unfetched:
  assumes "unfetched c R" and "explicit_size (self_stream_results c) f"
  shows "\<exists>r c' R'. fetch f c = (Inr r, c') \<and> unfetched c' R'
           \<and> self_stream_results c' = self_stream_results c \<and> fetched_rows r @ R' = R"
proof (cases f)
  case FetchOne
  from fetchone_unfetched [OF assms(1)] obtain r c' R'
    where "fetchone c = (Inr r, c')" "unfetched c' R'"
      "self_stream_results c' = self_stream_results c" "fetched_rows (GotOne r) @ R' = R"
    by blast
  with FetchOne show ?thesis by (auto simp: fetch_def)
next
  case (FetchMany ko)
  with assms(2) obtain k where k: "ko = Some k" "0 \<le> k" "self_stream_results c \<Longrightarrow> k \<le> maxint"
    by (cases ko) (auto split: if_splits)
  from fetchmany_unfetched [OF assms(1) k(2,3)] obtain rs c' R'
    where "fetchmany (Some k) c = (Inr rs, c')" "unfetched c' R'"
      "self_stream_results c' = self_stream_results c" "rs @ R' = R" by blast
  with FetchMany k(1) show ?thesis by (auto simp: fetch_def)
next
  case FetchAll
  let ?c' = "c\<lparr>self_rows := if self_stream_results c then RowsIter [] else RowsList []\<rparr>"
  have "self_stream_results ?c' = self_stream_results c" by simp
  with FetchAll fetchall_unfetched [OF assms(1)] show ?thesis by (auto simp: fetch_def)
qed

lemma fetch_sequence_unfetched:
  assumes "unfetched c R" and "list_all (explicit_size (self_stream_results c)) ops"
  shows "\<exists>results c' R'. fetch_sequence ops c = (Inr results, c') \<and> unfetched c' R'
           \<and> concat (map fetched_rows results) @ R' = R"
  using assms
proof (induction ops arbitrary: c R)
  case Nil
  then show ?case by simp
next
  case (Cons f fs)
  from Cons.prems have f: "explicit_size (self_stream_results c) f"
    and fs: "list_all (explicit_size (self_stream_results c)) fs" by simp_all
  from fetch_unfetched [OF Cons.prems(1) f] obtain r c1 R1
    where 1: "fetch f c = (Inr r, c1)" "unfetched c1 R1"
      "self_stream_results c1 = self_stream_results c" "fetched_rows r @ R1 = R" by blast
  from fs 1(3) have fs1: "list_all (explicit_size (self_stream_results c1)) fs" by simp
  from Cons.IH [OF 1(2) fs1] obtain results c2 R2
    where 2: "fetch_sequence fs c1 = (Inr results, c2)" "unfetched c2 R2"
      "concat (map fetched_rows results) @ R2 = R1" by blast
  from 1 2 have "fetch_sequence (f # fs) c = (Inr (r # results), c2)" by simp
  moreover from 1(4) 2(3) have "concat (map fetched_rows (r # results)) @ R2 = R" by simp
  ultimately show ?case using 2(2) by blast
qed

lemma execute_unfetched:
  assumes "execute replies operation parameters h c0 = (Inr (), h', c)"
      and "result_set replies (self_stream_results c0) = Some R"
  shows "unfetched c R" and "self_stream_results c = self_stream_results c0"
proof -
  have "unfetched c R \<and> self_stream_results c = self_stream_results c0"
  proof (cases "self_stream_results c0")
    case True
    with assms(2) obtain cwt s where
      reply: "execute_iter_reply replies = Inr (HeaderThenRows (Yields cwt) s)"
      and d: "drain s = Inr R"
      by (auto simp: result_set_def split: sum.splits lazy_response.splits pull.splits)
    from d have s: "s = map Yields R" by (rule drain_Inr)
    from assms(1) True reply s show ?thesis
      by (auto simp: unfetched_def execute_def check_cursor_closed_def prepare_def
          begin_query_def end_query_def call_client_def record_call_def process_response_def
          falsy_def store_result_def Let_def split: sum.splits prod.splits if_splits)
  next
    case False
    from assms(1) False
    have "\<exists>b. execute_reply replies = Inr b
              \<and> self_rows c = RowsList (case b of Result rows cwt \<Rightarrow> rows | _ \<Rightarrow> [])
              \<and> self_state c = FINISHED \<and> \<not> self_stream_results c"
      by (auto simp: execute_def check_cursor_closed_def prepare_def begin_query_def
          end_query_def call_client_def record_call_def process_response_def falsy_def
          store_result_def Let_def
          split: sum.splits prod.splits if_splits buffered_response.splits)
    then obtain b where b: "execute_reply replies = Inr b"
        "self_rows c = RowsList (case b of Result rows cwt \<Rightarrow> rows | _ \<Rightarrow> [])"
        "self_state c = FINISHED" "\<not> self_stream_results c"
      by blast
    from assms(2) False b(1) have "R = (case b of Result rows cwt \<Rightarrow> rows | _ \<Rightarrow> [])"
      by (cases b) (simp_all add: result_set_def)
    with b False show ?thesis by (simp add: unfetched_def)
  qed
  then show "unfetched c R" and "self_stream_results c = self_stream_results c0" by simp_all
qed

text \<open>A buffered \<^verbatim>\<open>executemany\<close> that succeeds leaves an empty list of rows.\<close>

lemma executemany_unfetched:
  assumes "executemany replies operation parameters h c0 = (Inr (), h', c)"
      and "\<not> self_stream_results c0"
  shows "unfetched c []" and "self_stream_results c = self_stream_results c0"
proof -
  from assms
  have "self_rows c = RowsList [] \<and> self_state c = FINISHED \<and> \<not> self_stream_results c"
    by (auto simp: executemany_def check_cursor_closed_def prepare_def begin_query_def
        end_query_def call_client_def record_call_def process_response_def falsy_def Let_def
        split: sum.splits prod.splits if_splits)
  with assms(2) show "unfetched c []" and "self_stream_results c = self_stream_results c0"
    by (simp_all add: unfetched_def)
qed

text \<open>
  C7, as amended. After a query that \<^verbatim>\<open>execute\<close> ran with success and whose result set
  is \<open>R\<close>, or after an \<^verbatim>\<open>executemany\<close> that succeeded in buffered mode (then \<open>R\<close> is
  empty), any sequence of \<^verbatim>\<open>fetchone\<close>, \<^verbatim>\<open>fetchall\<close> and \<^verbatim>\<open>fetchmany(k)\<close> calls with
  \<open>0 \<le> k\<close>, and in streaming mode \<open>k \<le> sys.maxint\<close>, returns without error; a
  \<^verbatim>\<open>fetchall\<close> after it returns the rows not fetched yet, and the rows fetched by all
  the calls, in the order of the calls, are \<open>R\<close>. This holds in buffered and in streaming
  mode.
\<close>

theorem C7_fetch_results_concatenate:
  assumes "(call = execute replies operation parameters
            \<and> result_set replies (self_stream_results c0) = Some R)
           \<or> (call = executemany replies operation parameters
              \<and> \<not> self_stream_results c0 \<and> R = [])"
      and "call h c0 = (Inr (), h', c)"
      and "list_all (explicit_size (self_stream_results c0)) ops"
  shows "\<exists>results c' rest c''.
           fetch_sequence ops c = (Inr results, c')
           \<and> fetchall c' = (Inr (RowsList rest), c'')
           \<and> concat (map fetched_rows results) @ rest = R"
proof -
  from assms(1) have "unfetched c R \<and> self_stream_results c = self_stream_results c0"
  proof
    assume a: "call = execute replies operation parameters
            \<and> result_set replies (self_stream_results c0) = Some R"
    with assms(2) have "execute replies operation parameters h c0 = (Inr (), h', c)" by simp
    from execute_unfetched [OF this] a show ?thesis by simp
  next
    assume a: "call = executemany replies operation parameters
              \<and> \<not> self_stream_results c0 \<and> R = []"
    with assms(2) have "executemany replies operation parameters h c0 = (Inr (), h', c)"
      by simp
    from executemany_unfetched [OF this] a show ?thesis by simp
  qed
  then have u: "unfetched c R" and "list_all (explicit_size (self_stream_results c)) ops"
    using assms(3) by simp_all
  from fetch_sequence_unfetched [OF this] obtain results c' R'
    where 1: "fetch_sequence ops c = (Inr results, c')" "unfetched c' R'"
      "concat (map fetched_rows results) @ R' = R" by blast
  from fetchall_unfetched(1) [OF 1(2)] 1 show ?thesis by blast
qed

theorem C7_fetch_results_concatenate_witness:
  "\<exists>results c' rest c''.
     fetch_sequence [FetchOne, FetchMany (Some 1)] streaming_finished = (Inr results, c')
     \<and> fetchall c' = (Inr (RowsList rest), c'')
     \<and> concat (map fetched_rows results) @ rest = sample_rows"
proof -
  have 1: "execute select_replies ''SELECT x FROM t'' PNone [] streaming_cursor
             = (Inr (), [[(''max_block_size'', PInt 100)]], streaming_finished)"
    by (simp add: method_defs sample_defs)
  have 2: "(execute select_replies ''SELECT x FROM t'' PNone
              = execute select_replies ''SELECT x FROM t'' PNone
            \<and> result_set select_replies (self_stream_results streaming_cursor)
                = Some sample_rows)
           \<or> (execute select_replies ''SELECT x FROM t'' PNone
                = executemany select_replies ''SELECT x FROM t'' PNone
              \<and> \<not> self_stream_results streaming_cursor \<and> sample_rows = [])"
    by (simp add: result_set_def select_replies_def streaming_cursor_def set_stream_results_def
        drain_Yields)
  have 3: "list_all (explicit_size (self_stream_results streaming_cursor))
             [FetchOne, FetchMany (Some 1)]"
    by (simp add: maxint_def)
  from C7_fetch_results_concatenate [OF 2 1 3] show ?thesis .
qed

text \<open>
  The claim as stated fails in streaming mode in two ways. After a query with three rows,
  \<^verbatim>\<open>fetchmany(2**63)\<close> raises \<^verbatim>\<open>ValueError\<close> and returns no rows, although its size is
  explicit and not negative. And after an \<^verbatim>\<open>executemany\<close> that succeeded, the row
  source is a list, on which \<^verbatim>\<open>fetchone\<close> raises \<^verbatim>\<open>TypeError\<close>.
\<close>

theorem C7_counterexample:
  "execute select_replies ''SELECT x FROM t'' PNone [] streaming_cursor
     = (Inr (), [[(''max_block_size'', PInt 100)]], streaming_finished)
   \<and> fst (fetchmany (Some (2 ^ 63)) streaming_finished) = Inl ValueError
   \<and> fst (executemany insert_replies ''INSERT INTO t (x) VALUES'' (PList []) []
            streaming_cursor) = Inr ()
   \<and> fst (fetchone (snd (snd (executemany insert_replies ''INSERT INTO t (x) VALUES''
            (PList []) [] streaming_cursor)))) = Inl TypeError"
  by (simp add: method_defs sample_defs fetchmany_def fetchone_def maxint_def Let_def)

section \<open>Streaming (C8)\<close>

lemma fetchone_streaming_all:
  assumes "self_state c \<noteq> NONE" and "self_stream_results c"
  shows "fetch_sequence (replicate (length R) FetchOne) (c\<lparr>self_rows := RowsIter (map Yields R)\<rparr>)
           = (Inr (map (\<lambda>r. GotOne (Some r)) R), c\<lparr>self_rows := RowsIter []\<rparr>)"
  using assms
  by (induction R) (simp_all add: fetch_def fetchone_def check_query_started_def)

lemma fetch_exhausted:
  assumes "self_state c \<noteq> NONE" and "self_stream_results c" and "self_rows c = RowsIter []"
      and "explicit_size True f"
  shows "\<exists>r. fetch f c = (Inr r, c) \<and> empty_result r"
proof -
  have same: "c\<lparr>self_rows := RowsIter []\<rparr> = c"
    using assms(3) by (cases c) simp
  show ?thesis
  proof (cases f)
    case FetchOne
    with assms show ?thesis by (simp add: fetch_def fetchone_def check_query_started_def)
  next
    case (FetchMany ko)
    with assms(4) obtain k where "ko = Some k" "0 \<le> k" "\<not> maxint < k"
      by (cases ko) auto
    with FetchMany assms same show ?thesis
      by (simp add: fetch_def fetchmany_def check_query_started_def Let_def)
  next
    case FetchAll
    with assms same show ?thesis by (simp add: fetch_def fetchall_def check_query_started_def)
  qed
qed

lemma fetch_sequence_exhausted:
  assumes "self_state c \<noteq> NONE" and "self_stream_results c" and "self_rows c = RowsIter []"
      and "list_all (explicit_size True) ops"
  shows "\<exists>results. fetch_sequence ops c = (Inr results, c) \<and> list_all empty_result results"
  using assms(4)
proof (induction ops)
  case Nil
  then show ?case by simp
next
  case (Cons f fs)
  from Cons.prems have f: "explicit_size True f" and fs: "list_all (explicit_size True) fs"
    by simp_all
  from fetch_exhausted [OF assms(1-3) f] obtain r where "fetch f c = (Inr r, c)" "empty_result r"
    by blast
  moreover from Cons.IH [OF fs] obtain results
    where "fetch_sequence fs c = (Inr results, c)" "list_all empty_result results" by blast
  ultimately show ?case by simp
qed

lemma execute_streaming_success:
  assumes "self_stream_results c0"
      and "execute_iter_reply replies = Inr (HeaderThenRows (Yields cwt) s)"
      and "execute replies operation parameters h c0 = (Inr (), h', c)"
  shows "self_columns c = Some (map fst cwt)" and "self_types c = Some (map snd cwt)"
    and "self_rows c = RowsIter s" and "self_state c = FINISHED" and "self_stream_results c"
  using assms
  by (auto simp: execute_def check_cursor_closed_def prepare_def begin_query_def
        end_query_def call_client_def record_call_def process_response_def falsy_def
        store_result_def Let_def split: sum.splits prod.splits if_splits)

text \<open>
  C8, as amended. In streaming mode, unpacking the response pulls one element, the header,
  to set columns and types, and stores the rest of the lazy sequence as the row source
  without pulling from it. When the rest produces the rows \<open>R\<close>, \<^verbatim>\<open>fetchone\<close> called
  \<open>length R\<close> times returns them in order and then returns the null marker;
  \<^verbatim>\<open>fetchall\<close> called instead returns \<open>R\<close>; and after either, every \<^verbatim>\<open>fetchone\<close>,
  \<^verbatim>\<open>fetchall\<close> and \<^verbatim>\<open>fetchmany(k)\<close> with \<open>0 \<le> k \<le> sys.maxint\<close> returns null or
  empty.
\<close>

theorem C8_streaming_unpack_and_fetch:
  assumes "self_stream_results c0"
      and "execute_iter_reply replies = Inr (HeaderThenRows (Yields cwt) s)"
      and "execute replies operation parameters h c0 = (Inr (), h', c)"
  shows "self_columns c = Some (map fst cwt) \<and> self_types c = Some (map snd cwt)
       \<and> self_rows c = RowsIter s
       \<and> (s = map Yields R \<longrightarrow>
            fetch_sequence (replicate (length R) FetchOne) c
              = (Inr (map (\<lambda>r. GotOne (Some r)) R), c\<lparr>self_rows := RowsIter []\<rparr>)
            \<and> fetchone (c\<lparr>self_rows := RowsIter []\<rparr>) = (Inr None, c\<lparr>self_rows := RowsIter []\<rparr>)
            \<and> fetchall c = (Inr (RowsList R), c\<lparr>self_rows := RowsIter []\<rparr>)
            \<and> (list_all (explicit_size True) ops \<longrightarrow>
                 (\<exists>results.
                    fetch_sequence ops (c\<lparr>self_rows := RowsIter []\<rparr>)
                      = (Inr results, c\<lparr>self_rows := RowsIter []\<rparr>)
                    \<and> list_all empty_result results)))"
proof -
  note post = execute_streaming_success [OF assms]
  have started: "self_state c \<noteq> NONE" using post(4) by simp
  have fetches: "fetch_sequence (replicate (length R) FetchOne) c
              = (Inr (map (\<lambda>r. GotOne (Some r)) R), c\<lparr>self_rows := RowsIter []\<rparr>)"
    and null: "fetchone (c\<lparr>self_rows := RowsIter []\<rparr>) = (Inr None, c\<lparr>self_rows := RowsIter []\<rparr>)"
    and all: "fetchall c = (Inr (RowsList R), c\<lparr>self_rows := RowsIter []\<rparr>)"
    if s: "s = map Yields R"
  proof -
    have c: "c\<lparr>self_rows := RowsIter (map Yields R)\<rparr> = c"
      using post(3) s by (cases c) simp
    from fetchone_streaming_all [OF started post(5), of R] c
    show "fetch_sequence (replicate (length R) FetchOne) c
              = (Inr (map (\<lambda>r. GotOne (Some r)) R), c\<lparr>self_rows := RowsIter []\<rparr>)" by simp
    show "fetchone (c\<lparr>self_rows := RowsIter []\<rparr>) = (Inr None, c\<lparr>self_rows := RowsIter []\<rparr>)"
      using started post(5) by (simp add: fetchone_def check_query_started_def)
    show "fetchall c = (Inr (RowsList R), c\<lparr>self_rows := RowsIter []\<rparr>)"
      using started post(3,5) s by (simp add: fetchall_def check_query_started_def drain_Yields)
  qed
  have later: "\<exists>results.
                    fetch_sequence ops (c\<lparr>self_rows := RowsIter []\<rparr>)
                      = (Inr results, c\<lparr>self_rows := RowsIter []\<rparr>)
                    \<and> list_all empty_result results"
    if "list_all (explicit_size True) ops"
    using started post(5) that by (intro fetch_sequence_exhausted) simp_all
  from post(1-3) fetches null all later show ?thesis by blast
qed

theorem C8_streaming_unpack_and_fetch_witness:
  "self_columns streaming_finished = Some [''x'']
   \<and> self_types streaming_finished = Some [''UInt8'']
   \<and> self_rows streaming_finished = RowsIter (map Yields sample_rows)
   \<and> fetch_sequence [FetchOne, FetchOne, FetchOne] streaming_finished
       = (Inr [GotOne (Some [PInt 1]), GotOne (Some [PInt 2]), GotOne (Some [PInt 3])],
          streaming_finished\<lparr>self_rows := RowsIter []\<rparr>)
   \<and> fetchone (streaming_finished\<lparr>self_rows := RowsIter []\<rparr>)
       = (Inr None, streaming_finished\<lparr>self_rows := RowsIter []\<rparr>)
   \<and> fetchall streaming_finished
       = (Inr (RowsList sample_rows), streaming_finished\<lparr>self_rows := RowsIter []\<rparr>)
   \<and> (\<exists>results.
         fetch_sequence [FetchAll, FetchMany (Some 2), FetchOne]
           (streaming_finished\<lparr>self_rows := RowsIter []\<rparr>)
           = (Inr results, streaming_finished\<lparr>self_rows := RowsIter []\<rparr>)
         \<and> list_all empty_result results)"
proof -
  have 1: "self_stream_results streaming_cursor"
    by (simp add: streaming_cursor_def set_stream_results_def)
  have 2: "execute_iter_reply select_replies
             = Inr (HeaderThenRows (Yields sample_header) (map Yields sample_rows))"
    by (simp add: select_replies_def)
  have 3: "execute select_replies ''SELECT x FROM t'' PNone [] streaming_cursor
             = (Inr (), [[(''max_block_size'', PInt 100)]], streaming_finished)"
    by (simp add: method_defs sample_defs)
  have 4: "list_all (explicit_size True) [FetchAll, FetchMany (Some 2), FetchOne]"
    by (simp add: maxint_def)
  from C8_streaming_unpack_and_fetch
    [OF 1 2 3, of sample_rows "[FetchAll, FetchMany (Some 2), FetchOne]"] 4
  show ?thesis by (simp add: sample_header_def sample_rows_def)
qed

text \<open>
  The claim as stated fails for \<^verbatim>\<open>fetchmany\<close>: after \<^verbatim>\<open>fetchall\<close> has drained the
  sequence, \<^verbatim>\<open>fetchmany()\<close> raises \<^verbatim>\<open>ValueError\<close> and returns nothing, since the size
  it uses is the \<^verbatim>\<open>arraysize\<close> of \<^verbatim>\<open>-1\<close>, and so does \<^verbatim>\<open>fetchmany(2**63)\<close>.
\<close>

theorem C8_counterexample:
  "fst (fetchall streaming_finished) = Inr (RowsList sample_rows)
   \<and> fst (fetchmany None (snd (fetchall streaming_finished))) = Inl ValueError
   \<and> fst (fetchmany (Some (2 ^ 63)) (snd (fetchall streaming_finished))) = Inl ValueError"
  by (simp add: streaming_finished_eq fetchall_def fetchmany_def check_query_started_def Let_def
      drain_Yields streaming_cursor_def set_stream_results_def Cursor_init_def reset_state_def
      maxint_def)

section \<open>The staged options across query calls (C9, C10)\<close>

lemma prepare_buffered:
  assumes "\<not> self_stream_results c" and "prepare h c = (r, h1, c1)"
  shows "h1 = h" and "c1 = c"
  using assms by (auto simp: prepare_def Let_def split: sum.splits)

lemma prepare_streaming:
  assumes "self_stream_results c" and "prepare h c = (Inr (ep, kw), h1, c1)"
  shows "\<exists>a h0. settings_or_new h (self_settings c) = (a, h0)
            \<and> h1 = h0[a := AList.update ''max_block_size'' (PInt (self_max_row_buffer c)) (h0 ! a)]
            \<and> c1 = c\<lparr>self_settings := Some a\<rparr>
            \<and> kw_settings kw = Some a \<and> ep = ClientExecuteIter"
proof -
  obtain a h0 where s: "settings_or_new h (self_settings c) = (a, h0)"
    by (cases "settings_or_new h (self_settings c)") auto
  from assms(2) obtain recs where "external_table_records (self_external_tables c) = Inr recs"
    by (cases "external_table_records (self_external_tables c)") (simp_all add: prepare_def)
  with assms s
  have "h1 = h0[a := AList.update ''max_block_size'' (PInt (self_max_row_buffer c)) (h0 ! a)]
            \<and> c1 = c\<lparr>self_settings := Some a\<rparr>
            \<and> kw_settings kw = Some a \<and> ep = ClientExecuteIter"
    by (clarsimp simp: prepare_def Let_def)
  with s show ?thesis by blast
qed

lemma settings_or_new_cases:
  assumes "settings_or_new h s = (a, h0)"
  obtains (reused) "s = Some a" and "a < length h" and "h ! a \<noteq> []" and "h0 = h"
  | (fresh) "a = length h" and "h0 = h @ [[]]"
      and "s = None \<or> (\<exists>b. s = Some b \<and> (length h \<le> b \<or> h ! b = []))"
proof (cases s)
  case None
  with assms have "a = length h" "h0 = h @ [[]]" by (simp_all add: settings_or_new_def)
  with None fresh show ?thesis by simp
next
  case (Some b)
  show ?thesis
  proof (cases "b < length h \<and> h ! b \<noteq> []")
    case True
    with assms Some have "a = b" "h0 = h" by (simp_all add: settings_or_new_def)
    with Some True reused show ?thesis by simp
  next
    case False
    with assms Some have "a = length h" "h0 = h @ [[]]" by (simp_all add: settings_or_new_def)
    moreover from False have "length h \<le> b \<or> h ! b = []" by auto
    ultimately show ?thesis using Some fresh by simp
  qed
qed

lemma prepare_streaming_settings:
  assumes "self_stream_results c" and "prepare h c = (Inr (ep, kw), h1, c1)"
      and "settings_allocated h c"
  shows "settings_allocated h1 c1"
    and "staged_setting h1 c1 ''max_block_size'' = Some (PInt (self_max_row_buffer c))"
    and "k \<noteq> ''max_block_size'' \<Longrightarrow> staged_setting h1 c1 k = staged_setting h c k"
proof -
  from prepare_streaming [OF assms(1,2)] obtain a h0 where
    s: "settings_or_new h (self_settings c) = (a, h0)"
    and h1: "h1 = h0[a := AList.update ''max_block_size'' (PInt (self_max_row_buffer c)) (h0 ! a)]"
    and c1: "c1 = c\<lparr>self_settings := Some a\<rparr>" by blast
  from s have facts: "a < length h0
      \<and> (\<forall>k. map_of (h0 ! a) k = staged_setting h c k)"
  proof (cases rule: settings_or_new_cases)
    case reused
    then show ?thesis by (simp add: staged_setting_def)
  next
    case fresh
    have "staged_setting h c k = None" for k
    proof (cases "self_settings c")
      case None
      then show ?thesis by (simp add: staged_setting_def)
    next
      case (Some b)
      with assms(3) have "b < length h" by (simp add: settings_allocated_def)
      with fresh(3) Some have "h ! b = []" by simp
      with Some show ?thesis by (simp add: staged_setting_def)
    qed
    with fresh(1,2) show ?thesis by simp
  qed
  then have a: "a < length h0" and old: "map_of (h0 ! a) k = staged_setting h c k" for k
    by simp_all
  from a h1 c1 show "settings_allocated h1 c1"
    by (simp add: settings_allocated_def)
  from a h1 c1 show "staged_setting h1 c1 ''max_block_size'' = Some (PInt (self_max_row_buffer c))"
    by (simp add: staged_setting_def update_conv')
  show "staged_setting h1 c1 k = staged_setting h c k" if "k \<noteq> ''max_block_size''"
    using a h1 c1 that old [of k] by (simp add: staged_setting_def update_conv')
qed

lemma query_call_closed:
  "self_state c = CURSOR_CLOSED \<Longrightarrow>
     query_call many wct replies operation parameters h c = (Inl (Error ''Cursor is closed''), h, c)"
  by (simp add: query_call_def check_cursor_closed_def)

text \<open>
  Outside the result state, a query call leaves the cursor and the heap as
  \<^verbatim>\<open>_prepare\<close> left them.
\<close>

lemma query_call_after_prepare:
  assumes "self_state c \<noteq> CURSOR_CLOSED"
      and "query_call many wct replies operation parameters h c = (r, h', c')"
  obtains rp cp where "prepare h (begin_query c) = (rp, h', cp)"
      and "self_settings c' = self_settings cp"
      and "self_external_tables c' = self_external_tables cp"
      and "self_types_check c' = self_types_check cp"
      and "self_stream_results c' = self_stream_results cp"
      and "self_max_row_buffer c' = self_max_row_buffer cp"
      and "(\<exists>e. rp = Inl e) = (\<exists>e. r = Inl e \<and> rp = Inl e)"
  using assms(1)
proof (cases rule: query_call_cases [where c = c and h = h and many = many and wct = wct
        and replies = replies and operation = operation and parameters = parameters])
  case (prepare_error e)
  with assms(2) have "r = Inl e" "h' = h" "c' = begin_query c" by simp_all
  with prepare_error(1) that [of "Inl e" "begin_query c"] show ?thesis by simp
next
  case (client_error ep kw h1 c1 orig)
  with assms(2) have "h' = h1" "c' = record_call ep operation parameters wct kw c1" by simp_all
  with client_error(1) that [of "Inr (ep, kw)" c1] show ?thesis by (simp add: record_call_def)
next
  case (response_error ep kw h1 c1 resp e)
  with assms(2) have "h' = h1" "c' = record_call ep operation parameters wct kw c1" by simp_all
  with response_error(1) that [of "Inr (ep, kw)" c1] show ?thesis by (simp add: record_call_def)
next
  case (success ep kw h1 c1 resp c3)
  with assms(2) have 1: "h' = h1" "c' = end_query c3" by simp_all
  from process_response_frame [OF success(3)]
  obtain x y z w where "c3 = (record_call ep operation parameters wct kw c1)
      \<lparr>self_columns := x, self_types := y, self_rows := z, self_rowcount := w\<rparr>" by blast
  with 1 success(1) that [of "Inr (ep, kw)" c1] show ?thesis
    by (simp add: record_call_def end_query_def)
qed

lemma begin_query_options [simp]:
  "self_settings (begin_query c) = self_settings c"
  "self_types_check (begin_query c) = self_types_check c"
  "self_stream_results (begin_query c) = self_stream_results c"
  "self_max_row_buffer (begin_query c) = self_max_row_buffer c"
  "settings_allocated h (begin_query c) = settings_allocated h c"
  "staged_setting h (begin_query c) k = staged_setting h c k"
  by (simp_all add: begin_query_def settings_allocated_def staged_setting_def)

lemma query_call_options:
  assumes "query_call many wct replies operation parameters h c = (r, h', c')"
  shows "self_external_tables c' = self_external_tables c"
    and "self_types_check c' = self_types_check c"
    and "self_stream_results c' = self_stream_results c"
    and "self_max_row_buffer c' = self_max_row_buffer c"
proof -
  have "self_external_tables c' = self_external_tables c
      \<and> self_types_check c' = self_types_check c
      \<and> self_stream_results c' = self_stream_results c
      \<and> self_max_row_buffer c' = self_max_row_buffer c"
  proof (cases "self_state c = CURSOR_CLOSED")
    case True
    from query_call_closed [OF True] assms show ?thesis by simp
  next
    case False
    from False assms obtain rp cp where p: "prepare h (begin_query c) = (rp, h', cp)"
      and same: "self_external_tables c' = self_external_tables cp"
        "self_types_check c' = self_types_check cp"
        "self_stream_results c' = self_stream_results cp"
        "self_max_row_buffer c' = self_max_row_buffer cp"
      by (rule query_call_after_prepare)
    from prepare_frame [OF p] obtain s where "cp = (begin_query c)\<lparr>self_settings := s\<rparr>"
      by blast
    with same show ?thesis by simp
  qed
  then show "self_external_tables c' = self_external_tables c"
    and "self_types_check c' = self_types_check c"
    and "self_stream_results c' = self_stream_results c"
    and "self_max_row_buffer c' = self_max_row_buffer c" by simp_all
qed

lemma query_call_buffered_settings:
  assumes "query_call many wct replies operation parameters h c = (r, h', c')"
      and "\<not> self_stream_results c"
  shows "h' = h" and "self_settings c' = self_settings c"
proof -
  have "h' = h \<and> self_settings c' = self_settings c"
  proof (cases "self_state c = CURSOR_CLOSED")
    case True
    from query_call_closed [OF True] assms(1) show ?thesis by simp
  next
    case False
    from False assms(1) obtain rp cp where p: "prepare h (begin_query c) = (rp, h', cp)"
      and same: "self_settings c' = self_settings cp"
      by (rule query_call_after_prepare)
    from assms(2) have "\<not> self_stream_results (begin_query c)" by simp
    from prepare_buffered [OF this p] same show ?thesis by simp
  qed
  then show "h' = h" and "self_settings c' = self_settings c" by simp_all
qed

lemma staged_setting_cong:
  "self_settings c' = self_settings c \<Longrightarrow> staged_setting h c' k = staged_setting h c k"
  "self_settings c' = self_settings c \<Longrightarrow> settings_allocated h c' = settings_allocated h c"
  by (simp_all add: staged_setting_def settings_allocated_def)

lemma query_call_staged:
  assumes "query_call many wct replies operation parameters h c = (r, h', c')"
      and "settings_allocated h c"
  shows "settings_allocated h' c'"
    and "k \<noteq> ''max_block_size'' \<Longrightarrow> staged_setting h' c' k = staged_setting h c k"
proof -
  have "settings_allocated h' c'
      \<and> (k \<noteq> ''max_block_size'' \<longrightarrow> staged_setting h' c' k = staged_setting h c k)"
  proof (cases "self_state c = CURSOR_CLOSED")
    case True
    from query_call_closed [OF True] assms show ?thesis by simp
  next
    case False
    from False assms(1) obtain rp cp where p: "prepare h (begin_query c) = (rp, h', cp)"
      and same: "self_settings c' = self_settings cp"
      by (rule query_call_after_prepare)
    have "settings_allocated h' cp
        \<and> (k \<noteq> ''max_block_size'' \<longrightarrow> staged_setting h' cp k = staged_setting h c k)"
    proof (cases "self_stream_results c")
      case False
      then have "\<not> self_stream_results (begin_query c)" by simp
      from prepare_buffered [OF this p] assms(2) show ?thesis by simp
    next
      case True
      show ?thesis
      proof (cases rp)
        case (Inl e)
        with p prepare_error_unchanged [of h "begin_query c" e h' cp] assms(2)
        show ?thesis by simp
      next
        case (Inr epkw)
        obtain ep kw where "epkw = (ep, kw)" by (cases epkw) auto
        with p Inr have p': "prepare h (begin_query c) = (Inr (ep, kw), h', cp)" by simp
        from True have s: "self_stream_results (begin_query c)" by simp
        from assms(2) have al: "settings_allocated h (begin_query c)" by simp
        from prepare_streaming_settings(1) [OF s p' al]
          prepare_streaming_settings(3) [OF s p' al, of k]
        show ?thesis by simp
      qed
    qed
    with staged_setting_cong [OF same] show ?thesis by simp
  qed
  then show "settings_allocated h' c'"
    and "k \<noteq> ''max_block_size'' \<Longrightarrow> staged_setting h' c' k = staged_setting h c k"
    by simp_all
qed

lemma run_command_query_call:
  assumes "run_command cmd (h, c) = (h', c')"
  obtains many wct replies operation parameters r
  where "query_call many wct replies operation parameters h c = (r, h', c')"
proof (cases cmd)
  case (Execute replies operation parameters)
  with assms have "execute replies operation parameters h c
      = (fst (execute replies operation parameters h c), h', c')"
    by (simp add: run_command_def prod_eq_iff)
  then show ?thesis using that by (simp add: execute_query_call)
next
  case (ExecuteMany replies operation parameters)
  with assms have "executemany replies operation parameters h c
      = (fst (executemany replies operation parameters h c), h', c')"
    by (simp add: run_command_def prod_eq_iff)
  then show ?thesis using that by (simp add: executemany_query_call)
qed

lemma run_commands_options:
  assumes "run_commands cmds (h, c) = (h', c')"
  shows "self_external_tables c' = self_external_tables c
       \<and> self_types_check c' = self_types_check c
       \<and> self_stream_results c' = self_stream_results c
       \<and> self_max_row_buffer c' = self_max_row_buffer c"
  using assms
proof (induction cmds arbitrary: h c)
  case Nil
  then show ?case by simp
next
  case (Cons cmd cmds)
  obtain h1 c1 where 1: "run_command cmd (h, c) = (h1, c1)"
    by (cases "run_command cmd (h, c)") auto
  from 1 obtain many wct replies operation parameters r
    where "query_call many wct replies operation parameters h c = (r, h1, c1)"
    by (rule run_command_query_call)
  note step = query_call_options [OF this]
  from Cons.prems 1 have "run_commands cmds (h1, c1) = (h', c')" by simp
  from Cons.IH [OF this] step show ?case by simp
qed

lemma run_commands_buffered:
  assumes "run_commands cmds (h, c) = (h', c')" and "\<not> self_stream_results c"
  shows "h' = h \<and> self_settings c' = self_settings c"
  using assms
proof (induction cmds arbitrary: h c)
  case Nil
  then show ?case by simp
next
  case (Cons cmd cmds)
  obtain h1 c1 where 1: "run_command cmd (h, c) = (h1, c1)"
    by (cases "run_command cmd (h, c)") auto
  from 1 obtain many wct replies operation parameters r
    where q: "query_call many wct replies operation parameters h c = (r, h1, c1)"
    by (rule run_command_query_call)
  note step = query_call_buffered_settings [OF q Cons.prems(2)]
  from query_call_options(3) [OF q] Cons.prems(2) have b: "\<not> self_stream_results c1" by simp
  from Cons.prems 1 have "run_commands cmds (h1, c1) = (h', c')" by simp
  from Cons.IH [OF this b] step show ?case by simp
qed

lemma run_commands_staged:
  assumes "run_commands cmds (h, c) = (h', c')" and "settings_allocated h c"
      and "k \<noteq> ''max_block_size''"
  shows "settings_allocated h' c' \<and> staged_setting h' c' k = staged_setting h c k"
  using assms(1,2)
proof (induction cmds arbitrary: h c)
  case Nil
  then show ?case by simp
next
  case (Cons cmd cmds)
  obtain h1 c1 where 1: "run_command cmd (h, c) = (h1, c1)"
    by (cases "run_command cmd (h, c)") auto
  from 1 obtain many wct replies operation parameters r
    where q: "query_call many wct replies operation parameters h c = (r, h1, c1)"
    by (rule run_command_query_call)
  note step = query_call_staged(1) [OF q Cons.prems(2)]
    query_call_staged(2) [OF q Cons.prems(2) assms(3)]
  from Cons.prems 1 have "run_commands cmds (h1, c1) = (h', c')" by simp
  from Cons.IH [OF this step(1)] step(2) show ?case by simp
qed

text \<open>
  C9, as amended. Across any number of \<^verbatim>\<open>execute\<close> and \<^verbatim>\<open>executemany\<close> calls,
  whether they succeed or raise, the external-table map, the types-check flag, the
  streaming flag and the row-buffer size stay as they are. With streaming off the settings
  reference and every dictionary stay as they are; with streaming on, every staged setting
  but \<^verbatim>\<open>max_block_size\<close> keeps its value. Registering an external table under a name
  binds the name to the new pair, replaces an earlier registration of that name, leaves
  the other names alone and keeps the names distinct.
\<close>

theorem C9_staged_options_persist:
  assumes "run_commands cmds (h, c) = (h', c')"
  shows "self_external_tables c' = self_external_tables c
       \<and> self_types_check c' = self_types_check c
       \<and> self_stream_results c' = self_stream_results c
       \<and> self_max_row_buffer c' = self_max_row_buffer c
       \<and> (\<not> self_stream_results c \<longrightarrow> h' = h \<and> self_settings c' = self_settings c)
       \<and> (settings_allocated h c \<and> k \<noteq> ''max_block_size'' \<longrightarrow>
            staged_setting h' c' k = staged_setting h c k)
       \<and> map_of (self_external_tables (set_external_table name struct data c)) name
           = Some (struct, data)
       \<and> set_external_table name struct data (set_external_table name struct0 data0 c)
           = set_external_table name struct data c
       \<and> (other \<noteq> name \<longrightarrow>
            map_of (self_external_tables (set_external_table name struct data c)) other
              = map_of (self_external_tables c) other)
       \<and> (distinct (map fst (self_external_tables c)) \<longrightarrow>
            distinct (map fst (self_external_tables (set_external_table name struct data c))))"
proof -
  note a = run_commands_options [OF assms]
  have b: "h' = h \<and> self_settings c' = self_settings c" if "\<not> self_stream_results c"
    using assms that by (rule run_commands_buffered)
  have s: "staged_setting h' c' k = staged_setting h c k"
    if "settings_allocated h c" "k \<noteq> ''max_block_size''"
    using run_commands_staged [OF assms that] by simp
  have t1: "map_of (self_external_tables (set_external_table name struct data c)) name
           = Some (struct, data)"
    by (simp add: set_external_table_def update_conv')
  have t2: "set_external_table name struct data (set_external_table name struct0 data0 c)
           = set_external_table name struct data c"
    by (simp add: set_external_table_def)
  have t3: "map_of (self_external_tables (set_external_table name struct data c)) other
              = map_of (self_external_tables c) other" if "other \<noteq> name"
    using that by (simp add: set_external_table_def update_conv')
  have t4: "distinct (map fst (self_external_tables (set_external_table name struct data c)))"
    if "distinct (map fst (self_external_tables c))"
    using that by (simp add: set_external_table_def distinct_update)
  from a b s t1 t2 t3 t4 show ?thesis by blast
qed

lemma tuned_facts:
  "self_state tuned_cursor = NONE" "self_stream_results tuned_cursor"
  "self_external_tables tuned_cursor = []" "self_settings tuned_cursor = Some 0"
  "self_max_row_buffer tuned_cursor = 100" "self_types_check tuned_cursor = False"
  by (simp_all add: tuned_cursor_def streaming_cursor_def set_settings_def
      set_stream_results_def Cursor_init_def reset_state_def)

theorem C9_staged_options_persist_witness:
  "self_external_tables
      (snd (run_commands [Execute select_replies ''SELECT x FROM t'' PNone,
                          ExecuteMany insert_replies ''INSERT INTO t (x) VALUES'' (PList [])]
              (tuned_heap, tuned_cursor))) = []
   \<and> self_stream_results
      (snd (run_commands [Execute select_replies ''SELECT x FROM t'' PNone,
                          ExecuteMany insert_replies ''INSERT INTO t (x) VALUES'' (PList [])]
              (tuned_heap, tuned_cursor)))
   \<and> self_max_row_buffer
      (snd (run_commands [Execute select_replies ''SELECT x FROM t'' PNone,
                          ExecuteMany insert_replies ''INSERT INTO t (x) VALUES'' (PList [])]
              (tuned_heap, tuned_cursor))) = 100
   \<and> staged_setting
      (fst (run_commands [Execute select_replies ''SELECT x FROM t'' PNone,
                          ExecuteMany insert_replies ''INSERT INTO t (x) VALUES'' (PList [])]
              (tuned_heap, tuned_cursor)))
      (snd (run_commands [Execute select_replies ''SELECT x FROM t'' PNone,
                          ExecuteMany insert_replies ''INSERT INTO t (x) VALUES'' (PList [])]
              (tuned_heap, tuned_cursor)))
      ''max_threads'' = Some (PInt 4)"
proof -
  let ?cmds = "[Execute select_replies ''SELECT x FROM t'' PNone,
                ExecuteMany insert_replies ''INSERT INTO t (x) VALUES'' (PList [])]"
  have al: "settings_allocated tuned_heap tuned_cursor"
    by (simp add: settings_allocated_def tuned_facts tuned_heap_def)
  have st: "staged_setting tuned_heap tuned_cursor ''max_threads'' = Some (PInt 4)"
    by (simp add: staged_setting_def tuned_facts tuned_heap_def)
  have k: "''max_threads'' \<noteq> ''max_block_size''" by simp
  from C9_staged_options_persist
    [where cmds = ?cmds and h = tuned_heap and c = tuned_cursor and k = "''max_threads''",
     OF prod.collapse [symmetric]]
    al st k tuned_facts
  show ?thesis by (simp del: run_commands.simps)
qed

text \<open>
  The claim as stated fails for the settings map: a streaming \<^verbatim>\<open>execute\<close> overwrites the
  staged value of \<^verbatim>\<open>max_block_size\<close>, and it turns staged settings of \<^verbatim>\<open>None\<close> into a
  dictionary.
\<close>

theorem C9_counterexample:
  "staged_setting tuned_heap tuned_cursor ''max_block_size'' = Some (PInt 5)
   \<and> staged_setting
        (fst (snd (execute select_replies ''SELECT x FROM t'' PNone tuned_heap tuned_cursor)))
        (snd (snd (execute select_replies ''SELECT x FROM t'' PNone tuned_heap tuned_cursor)))
        ''max_block_size'' = Some (PInt 100)
   \<and> self_settings (snd (snd (execute select_replies ''SELECT x FROM t'' PNone [] streaming_cursor)))
       = Some 0
   \<and> self_settings streaming_cursor = None"
  by (simp add: staged_setting_def method_defs sample_defs tuned_cursor_def tuned_heap_def)

lemma prepare_streaming_no_tables:
  assumes "self_stream_results c" and "self_external_tables c = []"
      and "prepare h c = (rp, h1, cp)"
  shows "\<exists>ep kw. rp = Inr (ep, kw)"
  using assms by (auto simp: prepare_def Let_def split: prod.splits)

text \<open>
  C10, as amended. With streaming on and no external table registered, \<^verbatim>\<open>execute\<close> and
  \<^verbatim>\<open>executemany\<close> on a cursor that is not closed leave \<^verbatim>\<open>max_block_size\<close> set to the
  row-buffer size in the staged settings, whether the client then answers or raises. A
  staged dictionary that is not empty is written in place, so the caller's own object
  holds the value; when nothing is staged or the staged dictionary is empty, a new
  dictionary is made and no existing one is touched. The value stays in the cursor's
  settings, and is passed to the client, through all later calls made with streaming
  switched off.
\<close>

theorem C10_streaming_forces_max_block_size:
  assumes "self_state c \<noteq> CURSOR_CLOSED"
      and "self_stream_results c"
      and "self_external_tables c = []"
      and "settings_allocated h c"
      and "call = execute replies operation parameters
           \<or> call = executemany replies operation parameters"
      and "call h c = (r, h1, c1)"
  shows "staged_setting h1 c1 ''max_block_size'' = Some (PInt (self_max_row_buffer c))
       \<and> (case self_settings c of
            None \<Rightarrow>
              self_settings c1 = Some (length h)
              \<and> h1 = h @ [[(''max_block_size'', PInt (self_max_row_buffer c))]]
          | Some a \<Rightarrow>
              if h ! a \<noteq> [] then
                self_settings c1 = Some a
                \<and> h1 = h[a := AList.update ''max_block_size'' (PInt (self_max_row_buffer c)) (h ! a)]
              else
                self_settings c1 = Some (length h)
                \<and> h1 = h @ [[(''max_block_size'', PInt (self_max_row_buffer c))]])
       \<and> (run_commands cmds (h1, set_stream_results False m c1) = (h2, c2) \<longrightarrow>
            h2 = h1 \<and> self_settings c2 = self_settings c1
            \<and> staged_setting h2 c2 ''max_block_size'' = Some (PInt (self_max_row_buffer c))
            \<and> (\<exists>kw. fst (prepare h2 c2) = Inr (ClientExecute, kw)
                     \<and> kw_settings kw = self_settings c1))"
proof -
  let ?v = "PInt (self_max_row_buffer c)"
  obtain many wct where call: "call = query_call many wct replies operation parameters"
    using assms(5) by (rule query_call_of_method)
  with assms(6) have q: "query_call many wct replies operation parameters h c = (r, h1, c1)"
    by simp
  from assms(1) q obtain rp cp where p: "prepare h (begin_query c) = (rp, h1, cp)"
    and same: "self_settings c1 = self_settings cp"
    by (rule query_call_after_prepare)
  have s: "self_stream_results (begin_query c)" using assms(2) by simp
  have al: "settings_allocated h (begin_query c)" using assms(4) by simp
  from prepare_streaming_no_tables [OF s _ p] assms(3)
  obtain ep kw where "rp = Inr (ep, kw)" by auto
  with p have p': "prepare h (begin_query c) = (Inr (ep, kw), h1, cp)" by simp
  from prepare_streaming_settings(2) [OF s p' al] staged_setting_cong(1) [OF same]
  have 1: "staged_setting h1 c1 ''max_block_size'' = Some ?v" by simp
  from prepare_streaming [OF s p'] obtain a h0 where
    sn: "settings_or_new h (self_settings c) = (a, h0)"
    and h1: "h1 = h0[a := AList.update ''max_block_size'' ?v (h0 ! a)]"
    and cp: "self_settings cp = Some a" by auto
  from sn have 2: "(case self_settings c of
            None \<Rightarrow> self_settings c1 = Some (length h) \<and> h1 = h @ [[(''max_block_size'', ?v)]]
          | Some a \<Rightarrow>
              if h ! a \<noteq> [] then
                self_settings c1 = Some a \<and> h1 = h[a := AList.update ''max_block_size'' ?v (h ! a)]
              else
                self_settings c1 = Some (length h) \<and> h1 = h @ [[(''max_block_size'', ?v)]])"
  proof (cases rule: settings_or_new_cases)
    case reused
    with h1 cp same show ?thesis by simp
  next
    case fresh
    from fresh(1,2) h1 have new: "h1 = h @ [[(''max_block_size'', ?v)]]" by simp
    show ?thesis
    proof (cases "self_settings c")
      case None
      with new fresh(1) cp same show ?thesis by simp
    next
      case (Some b)
      with assms(4) have "b < length h" by (simp add: settings_allocated_def)
      with fresh(3) Some have "h ! b = []" by simp
      with Some new fresh(1) cp same show ?thesis by simp
    qed
  qed
  have 3: "h2 = h1 \<and> self_settings c2 = self_settings c1
            \<and> staged_setting h2 c2 ''max_block_size'' = Some ?v
            \<and> (\<exists>kw. fst (prepare h2 c2) = Inr (ClientExecute, kw)
                     \<and> kw_settings kw = self_settings c1)"
    if run: "run_commands cmds (h1, set_stream_results False m c1) = (h2, c2)"
  proof -
    have off: "\<not> self_stream_results (set_stream_results False m c1)"
      by (simp add: set_stream_results_def)
    from run_commands_buffered [OF run off]
    have b: "h2 = h1" "self_settings c2 = self_settings c1"
      by (simp_all add: set_stream_results_def)
    from run_commands_options [OF run] query_call_options(1) [OF q] assms(3)
    have o: "self_external_tables c2 = []" "\<not> self_stream_results c2"
      by (simp_all add: set_stream_results_def)
    from b 1 staged_setting_cong(1) [OF b(2)]
    have "staged_setting h2 c2 ''max_block_size'' = Some ?v" by simp
    moreover from o b(2)
    have "\<exists>kw. fst (prepare h2 c2) = Inr (ClientExecute, kw) \<and> kw_settings kw = self_settings c1"
      by (simp add: prepare_def)
    ultimately show ?thesis using b by simp
  qed
  from 1 2 3 show ?thesis by blast
qed

theorem C10_streaming_forces_max_block_size_witness:
  "staged_setting
      (fst (snd (execute select_replies ''SELECT x FROM t'' PNone tuned_heap tuned_cursor)))
      (snd (snd (execute select_replies ''SELECT x FROM t'' PNone tuned_heap tuned_cursor)))
      ''max_block_size'' = Some (PInt 100)
   \<and> self_settings (snd (snd (execute select_replies ''SELECT x FROM t'' PNone tuned_heap tuned_cursor)))
       = Some 0
   \<and> fst (snd (execute select_replies ''SELECT x FROM t'' PNone tuned_heap tuned_cursor))
       = [[(''max_threads'', PInt 4), (''max_block_size'', PInt 100)]]"
proof -
  let ?e = "execute select_replies ''SELECT x FROM t'' PNone tuned_heap tuned_cursor"
  have al: "settings_allocated tuned_heap tuned_cursor"
    by (simp add: settings_allocated_def tuned_facts tuned_heap_def)
  have open_: "self_state tuned_cursor \<noteq> CURSOR_CLOSED" by (simp add: tuned_facts)
  have call: "execute select_replies ''SELECT x FROM t'' PNone
                = execute select_replies ''SELECT x FROM t'' PNone
              \<or> execute select_replies ''SELECT x FROM t'' PNone
                = executemany select_replies ''SELECT x FROM t'' PNone" by simp
  have res: "?e = (fst ?e, fst (snd ?e), snd (snd ?e))" by simp
  from C10_streaming_forces_max_block_size
    [OF open_ tuned_facts(2) tuned_facts(3) al call res]
  have "staged_setting (fst (snd ?e)) (snd (snd ?e)) ''max_block_size''
          = Some (PInt (self_max_row_buffer tuned_cursor))"
    and "(case self_settings tuned_cursor of
            None \<Rightarrow>
              self_settings (snd (snd ?e)) = Some (length tuned_heap)
              \<and> fst (snd ?e)
                  = tuned_heap @ [[(''max_block_size'', PInt (self_max_row_buffer tuned_cursor))]]
          | Some a \<Rightarrow>
              if tuned_heap ! a \<noteq> [] then
                self_settings (snd (snd ?e)) = Some a
                \<and> fst (snd ?e)
                    = tuned_heap[a := AList.update ''max_block_size''
                        (PInt (self_max_row_buffer tuned_cursor)) (tuned_heap ! a)]
              else
                self_settings (snd (snd ?e)) = Some (length tuned_heap)
                \<and> fst (snd ?e)
                    = tuned_heap @ [[(''max_block_size'', PInt (self_max_row_buffer tuned_cursor))]])"
    by blast+
  then show ?thesis by (simp add: tuned_facts tuned_heap_def)
qed

text \<open>
  The claim as stated fails for a caller's empty dictionary: \<^verbatim>\<open>self._settings or {}\<close>
  takes the new dictionary, the cursor's settings move to it, and the caller's own
  dictionary stays empty.
\<close>

theorem C10_counterexample:
  "fst (snd (execute select_replies ''SELECT x FROM t'' PNone [[]] tuned_cursor))
     = [[], [(''max_block_size'', PInt 100)]]
   \<and> self_settings (snd (snd (execute select_replies ''SELECT x FROM t'' PNone [[]] tuned_cursor)))
       = Some 1
   \<and> map_of (fst (snd (execute select_replies ''SELECT x FROM t'' PNone [[]] tuned_cursor)) ! 0)
       ''max_block_size'' = None"
  by (simp add: method_defs sample_defs tuned_cursor_def)

end
